theory Spec2Isabelle
  imports Complex_Main
begin

section \<open>Python values the notebook relies on\<close>

text \<open>
  The notebook \<^verbatim>\<open>model.ipynb\<close> is a sequence of cells that mutate one docplex model.
  Every exception a cell can raise is a value of \<open>error\<close>; a computation that may raise
  returns \<open>error + 'a\<close> with \<open>Inl\<close> for the exception.
\<close>

datatype error = KeyError | IndexError | AttributeError | DOcplexException

definition bindE :: "error + 'a \<Rightarrow> ('a \<Rightarrow> error + 'b) \<Rightarrow> error + 'b" where
  "bindE r f = (case r of Inl e \<Rightarrow> Inl e | Inr x \<Rightarrow> f x)"

text \<open>A generator expression \<^verbatim>\<open>f(x) for x in xs\<close>, consumed eagerly: the first raise stops it.\<close>

fun mapE :: "('a \<Rightarrow> error + 'b) \<Rightarrow> 'a list \<Rightarrow> error + 'b list" where
  "mapE f [] = Inr []"
| "mapE f (x # xs) = bindE (f x) (\<lambda>y. bindE (mapE f xs) (\<lambda>ys. Inr (y # ys)))"

text \<open>A generator with two clauses, \<^verbatim>\<open>f(a, b) for a in as for b in bs\<close>.\<close>

definition mapE2 :: "('a \<Rightarrow> 'b \<Rightarrow> error + 'c) \<Rightarrow> 'a list \<Rightarrow> 'b list \<Rightarrow> error + 'c list" where
  "mapE2 f as bs = bindE (mapE (\<lambda>a. mapE (f a) bs) as) (\<lambda>yss. Inr (concat yss))"

text \<open>A generator with three clauses.\<close>

definition mapE3 ::
  "('a \<Rightarrow> 'b \<Rightarrow> 'c \<Rightarrow> error + 'd) \<Rightarrow> 'a list \<Rightarrow> 'b list \<Rightarrow> 'c list \<Rightarrow> error + 'd list" where
  "mapE3 f as bs cs = bindE (mapE (\<lambda>a. mapE2 (f a) bs cs) as) (\<lambda>yss. Inr (concat yss))"

text \<open>A \<^verbatim>\<open>for x in xs:\<close> statement whose body updates the state and may raise.\<close>

fun forE :: "'a list \<Rightarrow> ('a \<Rightarrow> 's \<Rightarrow> error + 's) \<Rightarrow> 's \<Rightarrow> error + 's" where
  "forE [] body st = Inr st"
| "forE (x # xs) body st = bindE (body x st) (forE xs body)"

text \<open>\<^verbatim>\<open>range(a, b)\<close> over the non-negative integers the notebook uses.\<close>

definition py_range :: "nat \<Rightarrow> nat \<Rightarrow> nat list" where
  "py_range a b = [a..<b]"

text \<open>
  Modelled from the spec: \<^verbatim>\<open>list_range\<close> is imported from \<^verbatim>\<open>src/utils\<close>, which is not
  among the sources. The spec gives every index family as the integer ids in \<open>[1, n]\<close>
  and asks that a degenerate range (\<open>m - 6\<close> with \<open>m \<le> 6\<close>) be empty; on natural
  numbers \<open>m - 6\<close> is then \<open>0\<close> and the range is empty as well.
\<close>

definition list_range :: "nat \<Rightarrow> nat list" where
  "list_range n = py_range 1 (n + 1)"

text \<open>\<^verbatim>\<open>str(k)\<close> for a non-negative integer: its decimal digits.\<close>

definition digit_char :: "nat \<Rightarrow> char" where
  "digit_char d = ''0123456789'' ! d"

function str :: "nat \<Rightarrow> string" where
  "str k = (if k < 10 then [digit_char k] else str (k div 10) @ [digit_char (k mod 10)])"
  by pat_completeness auto
termination
  by (relation "measure id") auto

declare str.simps [simp del]

text \<open>A dict is an association list in insertion order; a missing key raises \<open>KeyError\<close>.\<close>

definition getitem :: "('k \<times> 'v) list \<Rightarrow> 'k \<Rightarrow> error + 'v" where
  "getitem d key = (case map_of d key of None \<Rightarrow> Inl KeyError | Some v \<Rightarrow> Inr v)"

text \<open>Indexing a Python list: a negative index counts from the end.\<close>

definition list_getitem :: "'a list \<Rightarrow> int \<Rightarrow> error + 'a" where
  "list_getitem xs i =
     (let len = int (length xs); j = (if i < 0 then len + i else i)
      in if 0 \<le> j \<and> j < len then Inr (xs ! nat j) else Inl IndexError)"

section \<open>The docplex objects\<close>

text \<open>
  A decision variable is the object one creation call returns. It is identified by the
  Python name it is stored under (its family) and its key, and carries the name string
  and the type given at creation.
\<close>

datatype sign = Neg | Pos

datatype family = FX | FH | FD sign nat

datatype vartype = Binary | Continuous

datatype var = Var (origin: family) (index: "nat list") (name: string) (vartype: vartype)

text \<open>A linear expression: its terms in the order they were added, and its constant.\<close>

datatype linexpr = LinExpr (terms: "(rat \<times> var) list") (const: rat)

datatype sense = EQ | LE | GE

datatype constraint = Constraint (cname: string) (lhs: linexpr) (csense: sense) (rhs: linexpr)

record model =
  variables :: "var list"
  objective :: "linexpr option"
  constraints :: "constraint list"

definition Model :: model where
  "Model = \<lparr>variables = [], objective = None, constraints = []\<rparr>"

definition binary_var :: "family \<Rightarrow> nat list \<Rightarrow> string \<Rightarrow> var" where
  "binary_var fam key nm = Var fam key nm Binary"

text \<open>
  \<^verbatim>\<open>continuous_var_matrix(keys1, keys2, name)\<close> returns a dict over the pairs of keys; the
  variable of \<open>(k1, k2)\<close> is named \<^verbatim>\<open>name_k1_k2\<close>.
\<close>

definition continuous_var_matrix ::
  "family \<Rightarrow> nat list \<Rightarrow> nat list \<Rightarrow> string \<Rightarrow> ((nat \<times> nat) \<times> var) list" where
  "continuous_var_matrix fam keys1 keys2 nm =
     [((k1, k2), Var fam [k1, k2] (nm @ ''_'' @ str k1 @ ''_'' @ str k2) Continuous).
        k1 \<leftarrow> keys1, k2 \<leftarrow> keys2]"

text \<open>
  \<^verbatim>\<open>continuous_var_list(keys, name)\<close> returns a Python list, one variable per key, named
  \<^verbatim>\<open>name_k\<close>.
\<close>

definition continuous_var_list :: "family \<Rightarrow> nat list \<Rightarrow> string \<Rightarrow> var list" where
  "continuous_var_list fam keys nm =
     [Var fam [k] (nm @ ''_'' @ str k) Continuous. k \<leftarrow> keys]"

definition of_var :: "var \<Rightarrow> linexpr" where
  "of_var v = LinExpr [(1, v)] 0"

definition of_num :: "rat \<Rightarrow> linexpr" where
  "of_num c = LinExpr [] c"

definition add_expr :: "linexpr \<Rightarrow> linexpr \<Rightarrow> linexpr" where
  "add_expr a b = LinExpr (terms a @ terms b) (const a + const b)"

definition negate :: "linexpr \<Rightarrow> linexpr" where
  "negate a = LinExpr (map (\<lambda>(c, v). (- c, v)) (terms a)) (- const a)"

definition sub_expr :: "linexpr \<Rightarrow> linexpr \<Rightarrow> linexpr" where
  "sub_expr a b = add_expr a (negate b)"

text \<open>\<^verbatim>\<open>model.sum(es)\<close> over expressions already evaluated.\<close>

definition msum :: "linexpr list \<Rightarrow> linexpr" where
  "msum es = LinExpr (concat (map terms es)) (sum_list (map const es))"

text \<open>
  \<^verbatim>\<open>x * score\<close> for a variable \<open>x\<close>. The score comes from \<^verbatim>\<open>dict.get\<close> and is \<open>None\<close> when
  the section is missing; docplex multiplies a variable by a number or an expression
  only and raises on anything else. A score of 0 is kept as a term with coefficient 0.
\<close>

definition mul_score :: "var \<Rightarrow> rat option \<Rightarrow> error + linexpr" where
  "mul_score v score = (case score of None \<Rightarrow> Inl DOcplexException | Some c \<Rightarrow> Inr (LinExpr [(c, v)] 0))"

text \<open>Operators on operands that are evaluated left to right and may raise.\<close>

definition plusE :: "error + linexpr \<Rightarrow> error + linexpr \<Rightarrow> error + linexpr" where
  "plusE a b = bindE a (\<lambda>x. bindE b (\<lambda>y. Inr (add_expr x y)))"

definition minusE :: "error + linexpr \<Rightarrow> error + linexpr \<Rightarrow> error + linexpr" where
  "minusE a b = bindE a (\<lambda>x. bindE b (\<lambda>y. Inr (sub_expr x y)))"

text \<open>A dict entry used as an operand, \<^verbatim>\<open>d[key]\<close>.\<close>

definition item :: "('k \<times> var) list \<Rightarrow> 'k \<Rightarrow> error + linexpr" where
  "item d key = bindE (getitem d key) (\<lambda>v. Inr (of_var v))"

text \<open>A list entry used as an operand, \<^verbatim>\<open>d[i]\<close>.\<close>

definition list_at :: "var list \<Rightarrow> int \<Rightarrow> error + linexpr" where
  "list_at d i = bindE (list_getitem d i) (\<lambda>v. Inr (of_var v))"

text \<open>\<^verbatim>\<open>model.sum(f(x) for x in xs)\<close> and its forms with two and three clauses.\<close>

definition sum_over :: "'a list \<Rightarrow> ('a \<Rightarrow> error + linexpr) \<Rightarrow> error + linexpr" where
  "sum_over xs f = bindE (mapE f xs) (\<lambda>es. Inr (msum es))"

definition sum_over2 :: "'a list \<Rightarrow> 'b list \<Rightarrow> ('a \<Rightarrow> 'b \<Rightarrow> error + linexpr) \<Rightarrow> error + linexpr" where
  "sum_over2 as bs f = bindE (mapE2 f as bs) (\<lambda>es. Inr (msum es))"

definition sum_over3 ::
  "'a list \<Rightarrow> 'b list \<Rightarrow> 'c list \<Rightarrow> ('a \<Rightarrow> 'b \<Rightarrow> 'c \<Rightarrow> error + linexpr) \<Rightarrow> error + linexpr" where
  "sum_over3 as bs cs f = bindE (mapE3 f as bs cs) (\<lambda>es. Inr (msum es))"

definition add_constraint :: "constraint \<Rightarrow> model \<Rightarrow> model" where
  "add_constraint ct M = M\<lparr>constraints := constraints M @ [ct]\<rparr>"

text \<open>\<^verbatim>\<open>model.add_constraint(lhs == c, name)\<close> and its two inequalities, on an operand that may raise.\<close>

definition add_ct :: "string \<Rightarrow> error + linexpr \<Rightarrow> sense \<Rightarrow> error + linexpr \<Rightarrow> model \<Rightarrow> error + model" where
  "add_ct nm l sn r M =
     bindE l (\<lambda>a. bindE r (\<lambda>b. Inr (add_constraint (Constraint nm a sn b) M)))"

section \<open>The decision and deviation variables\<close>

text \<open>The module-level dicts and lists of the notebook, as functions of the parameters.\<close>

definition X :: "nat \<Rightarrow> nat \<Rightarrow> nat \<Rightarrow> nat \<Rightarrow> ((nat \<times> nat \<times> nat \<times> nat) \<times> var) list" where
  "X n m s t =
     [((i, j, k, l),
       binary_var FX [i, j, k, l] (''X_'' @ str i @ ''_'' @ str j @ ''_'' @ str k @ ''_'' @ str l)).
        i \<leftarrow> list_range n, j \<leftarrow> list_range m, k \<leftarrow> list_range s, l \<leftarrow> list_range t]"

definition h :: "nat \<Rightarrow> nat \<Rightarrow> ((nat \<times> nat) \<times> var) list" where
  "h n m =
     [((i, j), binary_var FH [i, j] (''h_'' @ str i @ ''_'' @ str j)).
        i \<leftarrow> list_range n, j \<leftarrow> list_range m]"

definition d_neg_1 :: "nat \<Rightarrow> nat \<Rightarrow> ((nat \<times> nat) \<times> var) list" where
  "d_neg_1 n m =
     continuous_var_matrix (FD Neg 1) (py_range 1 (n + 1)) (py_range 1 (m + 1)) ''d_neg_1''"

definition d_pos_1 :: "nat \<Rightarrow> nat \<Rightarrow> ((nat \<times> nat) \<times> var) list" where
  "d_pos_1 n m =
     continuous_var_matrix (FD Pos 1) (py_range 1 (n + 1)) (py_range 1 (m + 1)) ''d_pos_1''"

definition d_neg_2 :: "nat \<Rightarrow> nat \<Rightarrow> ((nat \<times> nat) \<times> var) list" where
  "d_neg_2 n m =
     continuous_var_matrix (FD Neg 2) (py_range 1 (n + 1)) (py_range 1 (m + 1)) ''d_neg_2''"

definition d_pos_2 :: "nat \<Rightarrow> nat \<Rightarrow> ((nat \<times> nat) \<times> var) list" where
  "d_pos_2 n m =
     continuous_var_matrix (FD Pos 2) (py_range 1 (n + 1)) (py_range 1 (m + 1)) ''d_pos_2''"

definition d_neg_3 :: "nat \<Rightarrow> var list" where
  "d_neg_3 n = continuous_var_list (FD Neg 3) (py_range 1 (n + 1)) ''d_neg_3''"

definition d_pos_3 :: "nat \<Rightarrow> var list" where
  "d_pos_3 n = continuous_var_list (FD Pos 3) (py_range 1 (n + 1)) ''d_pos_3''"

text \<open>The second key range of \<open>d_neg_6\<close> is \<^verbatim>\<open>range(t+1)\<close>, which starts at 0.\<close>

definition d_neg_4 :: "nat \<Rightarrow> nat \<Rightarrow> ((nat \<times> nat) \<times> var) list" where
  "d_neg_4 m t =
     continuous_var_matrix (FD Neg 4) (py_range 1 (m + 1)) (py_range 1 (t + 1)) ''d_neg_4''"

definition d_pos_4 :: "nat \<Rightarrow> nat \<Rightarrow> ((nat \<times> nat) \<times> var) list" where
  "d_pos_4 m t =
     continuous_var_matrix (FD Pos 4) (py_range 1 (m + 1)) (py_range 1 (t + 1)) ''d_pos_4''"

definition d_neg_5 :: "nat \<Rightarrow> nat \<Rightarrow> ((nat \<times> nat) \<times> var) list" where
  "d_neg_5 m t =
     continuous_var_matrix (FD Neg 5) (py_range 1 (m + 1)) (py_range 1 (t + 1)) ''d_neg_5''"

definition d_pos_5 :: "nat \<Rightarrow> nat \<Rightarrow> ((nat \<times> nat) \<times> var) list" where
  "d_pos_5 m t =
     continuous_var_matrix (FD Pos 5) (py_range 1 (m + 1)) (py_range 1 (t + 1)) ''d_pos_5''"

definition d_neg_6 :: "nat \<Rightarrow> nat \<Rightarrow> ((nat \<times> nat) \<times> var) list" where
  "d_neg_6 m t =
     continuous_var_matrix (FD Neg 6) (py_range 1 (m + 1)) (py_range 0 (t + 1)) ''d_neg_6''"

definition d_pos_6 :: "nat \<Rightarrow> nat \<Rightarrow> ((nat \<times> nat) \<times> var) list" where
  "d_pos_6 m t =
     continuous_var_matrix (FD Pos 6) (py_range 1 (m + 1)) (py_range 1 (t + 1)) ''d_pos_6''"

definition d_neg_7 :: "nat \<Rightarrow> nat \<Rightarrow> ((nat \<times> nat) \<times> var) list" where
  "d_neg_7 m t =
     continuous_var_matrix (FD Neg 7) (py_range 1 (m + 1)) (py_range 1 (t + 1)) ''d_neg_7''"

definition d_pos_7 :: "nat \<Rightarrow> nat \<Rightarrow> ((nat \<times> nat) \<times> var) list" where
  "d_pos_7 m t =
     continuous_var_matrix (FD Pos 7) (py_range 1 (m + 1)) (py_range 1 (t + 1)) ''d_pos_7''"

definition d_neg_8 :: "nat \<Rightarrow> nat \<Rightarrow> ((nat \<times> nat) \<times> var) list" where
  "d_neg_8 m t =
     continuous_var_matrix (FD Neg 8) (py_range 1 (m + 1)) (py_range 1 (t + 1)) ''d_neg_8''"

definition d_pos_8 :: "nat \<Rightarrow> nat \<Rightarrow> ((nat \<times> nat) \<times> var) list" where
  "d_pos_8 m t =
     continuous_var_matrix (FD Pos 8) (py_range 1 (m + 1)) (py_range 1 (t + 1)) ''d_pos_8''"

definition d_neg_9 :: "nat \<Rightarrow> nat \<Rightarrow> ((nat \<times> nat) \<times> var) list" where
  "d_neg_9 m t =
     continuous_var_matrix (FD Neg 9) (py_range 1 (m + 1)) (py_range 1 (t + 1)) ''d_neg_9''"

definition d_pos_9 :: "nat \<Rightarrow> nat \<Rightarrow> ((nat \<times> nat) \<times> var) list" where
  "d_pos_9 m t =
     continuous_var_matrix (FD Pos 9) (py_range 1 (m + 1)) (py_range 1 (t + 1)) ''d_pos_9''"

definition d_neg_10 :: "nat \<Rightarrow> nat \<Rightarrow> ((nat \<times> nat) \<times> var) list" where
  "d_neg_10 m t =
     continuous_var_matrix (FD Neg 10) (py_range 1 (m + 1)) (py_range 1 (t + 1)) ''d_neg_10''"

definition d_pos_10 :: "nat \<Rightarrow> nat \<Rightarrow> ((nat \<times> nat) \<times> var) list" where
  "d_pos_10 m t =
     continuous_var_matrix (FD Pos 10) (py_range 1 (m + 1)) (py_range 1 (t + 1)) ''d_pos_10''"

text \<open>Every creation call registers its variables with the model, in creation order.\<close>

definition register :: "var list \<Rightarrow> model \<Rightarrow> model" where
  "register vs M = M\<lparr>variables := variables M @ vs\<rparr>"

definition deviation_variables :: "nat \<Rightarrow> nat \<Rightarrow> nat \<Rightarrow> var list" where
  "deviation_variables n m t =
     map snd (d_neg_1 n m) @ map snd (d_pos_1 n m) @
     map snd (d_neg_2 n m) @ map snd (d_pos_2 n m) @
     d_neg_3 n @ d_pos_3 n @
     map snd (d_neg_4 m t) @ map snd (d_pos_4 m t) @
     map snd (d_neg_5 m t) @ map snd (d_pos_5 m t) @
     map snd (d_neg_6 m t) @ map snd (d_pos_6 m t) @
     map snd (d_neg_7 m t) @ map snd (d_pos_7 m t) @
     map snd (d_neg_8 m t) @ map snd (d_pos_8 m t) @
     map snd (d_neg_9 m t) @ map snd (d_pos_9 m t) @
     map snd (d_neg_10 m t) @ map snd (d_pos_10 m t)"

definition create_variables :: "nat \<Rightarrow> nat \<Rightarrow> nat \<Rightarrow> nat \<Rightarrow> model \<Rightarrow> model" where
  "create_variables n m s t M =
     register (deviation_variables n m t) (register (map snd (h n m)) (register (map snd (X n m s t)) M))"

section \<open>The objective\<close>

definition objective_expr :: "nat \<Rightarrow> nat \<Rightarrow> nat \<Rightarrow> error + linexpr" where
  "objective_expr n m t =
     plusE (plusE (plusE (plusE (plusE (plusE (plusE (plusE (plusE
       (sum_over2 (list_range n) (list_range m)
          (\<lambda>i j. plusE (item (d_neg_1 n m) (i, j)) (item (d_pos_1 n m) (i, j))))
       (sum_over2 (list_range n) (list_range m)
          (\<lambda>i j. plusE (item (d_neg_2 n m) (i, j)) (item (d_pos_2 n m) (i, j)))))
       (sum_over (py_range 0 n)
          (\<lambda>i. plusE (list_at (d_neg_3 n) (int i)) (list_at (d_pos_3 n) (int i)))))
       (sum_over2 (list_range m) (list_range t) (\<lambda>j l. item (d_pos_4 m t) (j, l))))
       (sum_over2 (list_range m) (list_range t) (\<lambda>j l. item (d_pos_5 m t) (j, l))))
       (sum_over2 (list_range m) (list_range t) (\<lambda>j l. item (d_pos_6 m t) (j, l))))
       (sum_over2 (list_range m) (list_range t) (\<lambda>j l. item (d_pos_7 m t) (j, l))))
       (sum_over2 (list_range m) (list_range t) (\<lambda>j l. item (d_pos_8 m t) (j, l))))
       (sum_over2 (list_range m) (list_range t) (\<lambda>j l. item (d_pos_9 m t) (j, l))))
       (sum_over2 (list_range m) (list_range t) (\<lambda>j l. item (d_pos_10 m t) (j, l)))"

definition minimize :: "nat \<Rightarrow> nat \<Rightarrow> nat \<Rightarrow> model \<Rightarrow> error + model" where
  "minimize n m t M = bindE (objective_expr n m t) (\<lambda>e. Inr (M\<lparr>objective := Some e\<rparr>))"

section \<open>The constraints\<close>

text \<open>
  The seven cells of the personnel requirement differ in three literals only: the section
  index inside the sum, the required number and the name. \<open>personnel_requirement\<close> is
  their common text; each cell below gives its own literals.
\<close>

definition personnel_requirement ::
  "nat \<Rightarrow> rat \<Rightarrow> string \<Rightarrow> nat \<Rightarrow> nat \<Rightarrow> nat \<Rightarrow> nat \<Rightarrow> model \<Rightarrow> error + model" where
  "personnel_requirement k req nm n m s t =
     forE (list_range m) (\<lambda>j. forE (list_range t) (\<lambda>l.
       add_ct (nm @ ''_Day_'' @ str j @ ''_Shift_'' @ str l)
         (sum_over (list_range n) (\<lambda>i. item (X n m s t) (i, j, k, l)))
         EQ (Inr (of_num req))))"

definition Equation_6 :: "nat \<Rightarrow> nat \<Rightarrow> nat \<Rightarrow> nat \<Rightarrow> model \<Rightarrow> error + model" where
  "Equation_6 = personnel_requirement 1 3 ''Equation_6_Personnel_Requirement_Section_1''"

definition Equation_7 :: "nat \<Rightarrow> nat \<Rightarrow> nat \<Rightarrow> nat \<Rightarrow> model \<Rightarrow> error + model" where
  "Equation_7 = personnel_requirement 2 4 ''Equation_7_Personnel_Requirement_Section_2''"

definition Equation_8 :: "nat \<Rightarrow> nat \<Rightarrow> nat \<Rightarrow> nat \<Rightarrow> model \<Rightarrow> error + model" where
  "Equation_8 = personnel_requirement 3 4 ''Equation_8_Personnel_Requirement_Section_3''"

definition Equation_9 :: "nat \<Rightarrow> nat \<Rightarrow> nat \<Rightarrow> nat \<Rightarrow> model \<Rightarrow> error + model" where
  "Equation_9 = personnel_requirement 3 4 ''Equation_9_Personnel_Requirement_Section_4''"

definition Equation_10 :: "nat \<Rightarrow> nat \<Rightarrow> nat \<Rightarrow> nat \<Rightarrow> model \<Rightarrow> error + model" where
  "Equation_10 = personnel_requirement 5 6 ''Equation_10_Personnel_Requirement_Section_5''"

definition Equation_11 :: "nat \<Rightarrow> nat \<Rightarrow> nat \<Rightarrow> nat \<Rightarrow> model \<Rightarrow> error + model" where
  "Equation_11 = personnel_requirement 6 8 ''Equation_11_Personnel_Requirement_Section_6''"

definition Equation_12 :: "nat \<Rightarrow> nat \<Rightarrow> nat \<Rightarrow> nat \<Rightarrow> model \<Rightarrow> error + model" where
  "Equation_12 = personnel_requirement 7 5 ''Equation_12_Personnel_Requirement_Section_7''"

definition Equation_13 :: "nat \<Rightarrow> nat \<Rightarrow> nat \<Rightarrow> nat \<Rightarrow> model \<Rightarrow> error + model" where
  "Equation_13 n m s t =
     forE (list_range n) (\<lambda>i. forE (list_range m) (\<lambda>j.
       add_ct (''Equation_13_Single_Shift_Per_Day_'' @ str i @ ''_'' @ str j)
         (sum_over2 (list_range s) (list_range t) (\<lambda>k l. item (X n m s t) (i, j, k, l)))
         LE (Inr (of_num 1))))"

definition Equation_14 :: "nat \<Rightarrow> nat \<Rightarrow> nat \<Rightarrow> nat \<Rightarrow> model \<Rightarrow> error + model" where
  "Equation_14 n m s t =
     forE (list_range n) (\<lambda>i. forE (list_range m) (\<lambda>j.
       add_ct (''Equation_14_No_Work_On_Vacation_'' @ str i @ ''_'' @ str j)
         (sum_over2 (list_range s) (list_range t) (\<lambda>k l. item (X n m s t) (i, j, k, l)))
         LE (minusE (Inr (of_num 1)) (item (h n m) (i, j)))))"

definition Equation_15_16 :: "nat \<Rightarrow> nat \<Rightarrow> nat \<Rightarrow> nat \<Rightarrow> model \<Rightarrow> error + model" where
  "Equation_15_16 n m s t =
     forE (list_range n) (\<lambda>i. forE (list_range (m - 6)) (\<lambda>j M.
       bindE
         (add_ct (''Equation_15_Max_2_Vacations_7_Days_'' @ str i @ ''_'' @ str j)
            (sum_over (py_range 0 7) (\<lambda>d. item (h n m) (i, j + d)))
            LE (Inr (of_num 2)) M)
         (add_ct (''Equation_16_Min_1_Vacation_7_Days_'' @ str i @ ''_'' @ str j)
            (sum_over (py_range 0 7) (\<lambda>d. item (h n m) (i, j + d)))
            GE (Inr (of_num 1)))))"

definition Equation_17_18 :: "nat \<Rightarrow> nat \<Rightarrow> nat \<Rightarrow> nat \<Rightarrow> model \<Rightarrow> error + model" where
  "Equation_17_18 n m s t =
     forE (list_range n) (\<lambda>i M.
       bindE
         (add_ct (''Equation_17_Max_Shift_1_Assignments_'' @ str i)
            (sum_over2 (list_range m) (list_range s) (\<lambda>j k. item (X n m s t) (i, j, k, 1)))
            LE (Inr (of_num 12)) M)
         (add_ct (''Equation_18_Max_Shift_2_Assignments_'' @ str i)
            (sum_over2 (list_range m) (list_range s) (\<lambda>j k. item (X n m s t) (i, j, k, 2)))
            LE (Inr (of_num 12))))"

definition Equation_19_20 :: "nat \<Rightarrow> nat \<Rightarrow> nat \<Rightarrow> nat \<Rightarrow> model \<Rightarrow> error + model" where
  "Equation_19_20 n m s t =
     forE (list_range n) (\<lambda>i M.
       bindE
         (add_ct (''Equation_19_Min_Shift_1_Assignments_'' @ str i)
            (sum_over2 (list_range m) (list_range s) (\<lambda>j k. item (X n m s t) (i, j, k, 1)))
            GE (Inr (of_num 10)) M)
         (add_ct (''Equation_20_Min_Shift_2_Assignments_'' @ str i)
            (sum_over2 (list_range m) (list_range s) (\<lambda>j k. item (X n m s t) (i, j, k, 2)))
            GE (Inr (of_num 10))))"

definition Equation_21 :: "nat \<Rightarrow> nat \<Rightarrow> nat \<Rightarrow> nat \<Rightarrow> model \<Rightarrow> error + model" where
  "Equation_21 n m s t =
     forE (list_range n) (\<lambda>i. forE (list_range (m - 1)) (\<lambda>j.
       add_ct (''Equation_21_No_Night_To_Morning_Consecutive_Shift_'' @ str i @ ''_'' @ str j)
         (plusE (sum_over (list_range s) (\<lambda>k. item (X n m s t) (i, j, k, 2)))
                (sum_over (list_range s) (\<lambda>k. item (X n m s t) (i, j + 1, k, 1))))
         LE (Inr (of_num 1))))"

definition Goal_Constraint_Equation_22 :: "nat \<Rightarrow> nat \<Rightarrow> nat \<Rightarrow> nat \<Rightarrow> model \<Rightarrow> error + model" where
  "Goal_Constraint_Equation_22 n m s t =
     forE (list_range n) (\<lambda>i. forE (list_range (m - 2)) (\<lambda>j.
       add_ct (''Goal_Constraint_Equation_22_'' @ str i @ ''_'' @ str j)
         (minusE (plusE (plusE (plusE
            (item (h n m) (i, j))
            (sum_over2 (list_range s) (list_range t) (\<lambda>k l. item (X n m s t) (i, j + 1, k, l))))
            (item (h n m) (i, j + 2)))
            (item (d_neg_1 n m) (i, j)))
            (item (d_pos_1 n m) (i, j)))
         EQ (Inr (of_num 2))))"

definition Goal_Constraint_Equation_23 :: "nat \<Rightarrow> nat \<Rightarrow> nat \<Rightarrow> nat \<Rightarrow> model \<Rightarrow> error + model" where
  "Goal_Constraint_Equation_23 n m s t =
     forE (list_range n) (\<lambda>i. forE (list_range (m - 2)) (\<lambda>j.
       add_ct (''Goal_Constraint_Equation_23_'' @ str i @ ''_'' @ str j)
         (minusE (plusE (plusE (plusE
            (sum_over2 (list_range s) (list_range t) (\<lambda>k l. item (X n m s t) (i, j, k, l)))
            (item (h n m) (i, j + 1)))
            (sum_over2 (list_range s) (list_range t) (\<lambda>k l. item (X n m s t) (i, j + 1, k, l))))
            (item (d_neg_2 n m) (i, j)))
            (item (d_pos_2 n m) (i, j)))
         EQ (Inr (of_num 2))))"

definition Goal_Constraint_Equation_24 :: "nat \<Rightarrow> nat \<Rightarrow> nat \<Rightarrow> nat \<Rightarrow> model \<Rightarrow> error + model" where
  "Goal_Constraint_Equation_24 n m s t =
     forE (list_range n) (\<lambda>i.
       add_ct (''Goal_Constraint_Equation_24_'' @ str i)
         (minusE (plusE
            (sum_over3 (list_range m) (list_range s) (list_range t)
               (\<lambda>j k l. item (X n m s t) (i, j, k, l)))
            (list_at (d_neg_3 n) (int i - 1)))
            (list_at (d_pos_3 n) (int i - 1)))
         EQ (Inr (of_num 22)))"

text \<open>
  The competency table is loaded from a spreadsheet by code outside the sources; it is a
  parameter here, a dict of dicts read with \<^verbatim>\<open>dict.get\<close>.
\<close>

type_synonym competency = "nat \<Rightarrow> (nat \<Rightarrow> rat option) option"

definition person_competency :: "competency \<Rightarrow> nat \<Rightarrow> nat \<Rightarrow> error + rat option" where
  "person_competency competency person_id section_id =
     (case competency person_id of
        None \<Rightarrow> Inl AttributeError
      | Some row \<Rightarrow> Inr (row section_id))"

text \<open>
  The seven cells of goals 4 to 10 differ in the section index, the deviation pair, the
  target and the name.
\<close>

definition quality_goal ::
  "nat \<Rightarrow> ((nat \<times> nat) \<times> var) list \<Rightarrow> ((nat \<times> nat) \<times> var) list \<Rightarrow> rat \<Rightarrow> string \<Rightarrow>
   nat \<Rightarrow> nat \<Rightarrow> nat \<Rightarrow> nat \<Rightarrow> competency \<Rightarrow> model \<Rightarrow> error + model" where
  "quality_goal k dneg dpos target nm n m s t competency =
     forE (list_range m) (\<lambda>j. forE (list_range t) (\<lambda>l.
       add_ct (nm @ ''_'' @ str j @ ''_'' @ str l)
         (minusE (plusE
            (sum_over (list_range n) (\<lambda>i.
               bindE (getitem (X n m s t) (i, j, k, l)) (\<lambda>x.
               bindE (person_competency competency i k) (\<lambda>c. mul_score x c))))
            (item dneg (j, l)))
            (item dpos (j, l)))
         EQ (Inr (of_num target))))"

definition Equation_25 :: "nat \<Rightarrow> nat \<Rightarrow> nat \<Rightarrow> nat \<Rightarrow> competency \<Rightarrow> model \<Rightarrow> error + model" where
  "Equation_25 n m s t = quality_goal 1 (d_neg_4 m t) (d_pos_4 m t) 3 ''Equation_25'' n m s t"

definition Equation_26 :: "nat \<Rightarrow> nat \<Rightarrow> nat \<Rightarrow> nat \<Rightarrow> competency \<Rightarrow> model \<Rightarrow> error + model" where
  "Equation_26 n m s t = quality_goal 2 (d_neg_5 m t) (d_pos_5 m t) 4 ''Equation_26'' n m s t"

definition Equation_27 :: "nat \<Rightarrow> nat \<Rightarrow> nat \<Rightarrow> nat \<Rightarrow> competency \<Rightarrow> model \<Rightarrow> error + model" where
  "Equation_27 n m s t = quality_goal 3 (d_neg_6 m t) (d_pos_6 m t) 4 ''Equation_27'' n m s t"

definition Equation_28 :: "nat \<Rightarrow> nat \<Rightarrow> nat \<Rightarrow> nat \<Rightarrow> competency \<Rightarrow> model \<Rightarrow> error + model" where
  "Equation_28 n m s t = quality_goal 4 (d_neg_7 m t) (d_pos_7 m t) 4 ''Equation_28'' n m s t"

definition Equation_29 :: "nat \<Rightarrow> nat \<Rightarrow> nat \<Rightarrow> nat \<Rightarrow> competency \<Rightarrow> model \<Rightarrow> error + model" where
  "Equation_29 n m s t = quality_goal 5 (d_neg_8 m t) (d_pos_8 m t) 6 ''Equation_29'' n m s t"

definition Equation_30 :: "nat \<Rightarrow> nat \<Rightarrow> nat \<Rightarrow> nat \<Rightarrow> competency \<Rightarrow> model \<Rightarrow> error + model" where
  "Equation_30 n m s t = quality_goal 6 (d_neg_9 m t) (d_pos_9 m t) 8 ''Equation_30'' n m s t"

definition Equation_31 :: "nat \<Rightarrow> nat \<Rightarrow> nat \<Rightarrow> nat \<Rightarrow> competency \<Rightarrow> model \<Rightarrow> error + model" where
  "Equation_31 n m s t = quality_goal 7 (d_neg_10 m t) (d_pos_10 m t) 5 ''Equation_31'' n m s t"

section \<open>Running the notebook\<close>

text \<open>The cells in notebook order; a cell that raises stops the run.\<close>

definition cells :: "nat \<Rightarrow> nat \<Rightarrow> nat \<Rightarrow> nat \<Rightarrow> competency \<Rightarrow> (model \<Rightarrow> error + model) list" where
  "cells n m s t competency =
     [\<lambda>M. Inr (create_variables n m s t M),
      minimize n m t,
      Equation_6 n m s t, Equation_7 n m s t, Equation_8 n m s t, Equation_9 n m s t,
      Equation_10 n m s t, Equation_11 n m s t, Equation_12 n m s t,
      Equation_13 n m s t, Equation_14 n m s t, Equation_15_16 n m s t,
      Equation_17_18 n m s t, Equation_19_20 n m s t, Equation_21 n m s t,
      Goal_Constraint_Equation_22 n m s t, Goal_Constraint_Equation_23 n m s t,
      Goal_Constraint_Equation_24 n m s t,
      Equation_25 n m s t competency, Equation_26 n m s t competency,
      Equation_27 n m s t competency, Equation_28 n m s t competency,
      Equation_29 n m s t competency, Equation_30 n m s t competency,
      Equation_31 n m s t competency]"

definition build :: "nat \<Rightarrow> nat \<Rightarrow> nat \<Rightarrow> nat \<Rightarrow> competency \<Rightarrow> error + model" where
  "build n m s t competency = forE (cells n m s t competency) (\<lambda>cell M. cell M) Model"

text \<open>
  The last cell calls \<^verbatim>\<open>model.solve()\<close>; the solver is an oracle, a parameter here. It is
  reached only when every cell before it has run.
\<close>

definition run_notebook ::
  "(model \<Rightarrow> 'sol option) \<Rightarrow> nat \<Rightarrow> nat \<Rightarrow> nat \<Rightarrow> nat \<Rightarrow> competency \<Rightarrow> error + 'sol option" where
  "run_notebook solve n m s t competency =
     bindE (build n m s t competency) (\<lambda>M. Inr (solve M))"

section \<open>Naming of the variables\<close>

text \<open>
  The name every creation call gives: the name of the family, then one \<^verbatim>\<open>_key\<close> for
  each component of the key. \<open>the_var fam key\<close> is the variable of family \<open>fam\<close> at
  \<open>key\<close> as the notebook creates it.
\<close>

fun family_name :: "family \<Rightarrow> string" where
  "family_name FX = ''X''"
| "family_name FH = ''h''"
| "family_name (FD Neg g) = ''d_neg_'' @ str g"
| "family_name (FD Pos g) = ''d_pos_'' @ str g"

fun family_type :: "family \<Rightarrow> vartype" where
  "family_type FX = Binary"
| "family_type FH = Binary"
| "family_type (FD sg g) = Continuous"

definition var_name :: "family \<Rightarrow> nat list \<Rightarrow> string" where
  "var_name fam key = family_name fam @ concat (map (\<lambda>k. ''_'' @ str k) key)"

definition the_var :: "family \<Rightarrow> nat list \<Rightarrow> var" where
  "the_var fam key = Var fam key (var_name fam key) (family_type fam)"

section \<open>The constraints each cell adds\<close>

text \<open>
  The lists below state, for each cell, the constraints it adds when every lookup of the
  cell succeeds: the text of the cell with each lookup replaced by the variable it
  returns. The lemmas of the next sections prove that the cells add exactly these.
\<close>

definition X_sum :: "nat \<Rightarrow> nat \<Rightarrow> nat \<Rightarrow> nat \<Rightarrow> linexpr" where
  "X_sum s t i j = msum (concat (map (\<lambda>k. map (\<lambda>l. of_var (the_var FX [i, j, k, l])) (list_range t)) (list_range s)))"

definition requirement_cts :: "nat \<Rightarrow> rat \<Rightarrow> string \<Rightarrow> nat \<Rightarrow> nat \<Rightarrow> nat \<Rightarrow> constraint list" where
  "requirement_cts k req nm n m t =
     concat (map (\<lambda>j. map (\<lambda>l.
       Constraint (nm @ ''_Day_'' @ str j @ ''_Shift_'' @ str l)
         (msum (map (\<lambda>i. of_var (the_var FX [i, j, k, l])) (list_range n))) EQ (of_num req))
       (list_range t)) (list_range m))"

definition cts_13 :: "nat \<Rightarrow> nat \<Rightarrow> nat \<Rightarrow> nat \<Rightarrow> constraint list" where
  "cts_13 n m s t =
     concat (map (\<lambda>i. map (\<lambda>j.
       Constraint (''Equation_13_Single_Shift_Per_Day_'' @ str i @ ''_'' @ str j)
         (X_sum s t i j) LE (of_num 1))
       (list_range m)) (list_range n))"

definition cts_14 :: "nat \<Rightarrow> nat \<Rightarrow> nat \<Rightarrow> nat \<Rightarrow> constraint list" where
  "cts_14 n m s t =
     concat (map (\<lambda>i. map (\<lambda>j.
       Constraint (''Equation_14_No_Work_On_Vacation_'' @ str i @ ''_'' @ str j)
         (X_sum s t i j) LE (sub_expr (of_num 1) (of_var (the_var FH [i, j]))))
       (list_range m)) (list_range n))"

definition leave_window :: "nat \<Rightarrow> nat \<Rightarrow> linexpr" where
  "leave_window i j = msum (map (\<lambda>d. of_var (the_var FH [i, j + d])) (py_range 0 7))"

definition cts_15_16 :: "nat \<Rightarrow> nat \<Rightarrow> constraint list" where
  "cts_15_16 n m =
     concat (map (\<lambda>i. concat (map (\<lambda>j.
       [Constraint (''Equation_15_Max_2_Vacations_7_Days_'' @ str i @ ''_'' @ str j)
          (leave_window i j) LE (of_num 2),
        Constraint (''Equation_16_Min_1_Vacation_7_Days_'' @ str i @ ''_'' @ str j)
          (leave_window i j) GE (of_num 1)])
       (list_range (m - 6)))) (list_range n))"

definition shift_sum :: "nat \<Rightarrow> nat \<Rightarrow> nat \<Rightarrow> nat \<Rightarrow> linexpr" where
  "shift_sum m s i l = msum (concat (map (\<lambda>j. map (\<lambda>k. of_var (the_var FX [i, j, k, l])) (list_range s)) (list_range m)))"

definition cts_17_18 :: "nat \<Rightarrow> nat \<Rightarrow> nat \<Rightarrow> constraint list" where
  "cts_17_18 n m s =
     concat (map (\<lambda>i.
       [Constraint (''Equation_17_Max_Shift_1_Assignments_'' @ str i) (shift_sum m s i 1) LE (of_num 12),
        Constraint (''Equation_18_Max_Shift_2_Assignments_'' @ str i) (shift_sum m s i 2) LE (of_num 12)])
       (list_range n))"

definition cts_19_20 :: "nat \<Rightarrow> nat \<Rightarrow> nat \<Rightarrow> constraint list" where
  "cts_19_20 n m s =
     concat (map (\<lambda>i.
       [Constraint (''Equation_19_Min_Shift_1_Assignments_'' @ str i) (shift_sum m s i 1) GE (of_num 10),
        Constraint (''Equation_20_Min_Shift_2_Assignments_'' @ str i) (shift_sum m s i 2) GE (of_num 10)])
       (list_range n))"

definition cts_21 :: "nat \<Rightarrow> nat \<Rightarrow> nat \<Rightarrow> constraint list" where
  "cts_21 n m s =
     concat (map (\<lambda>i. map (\<lambda>j.
       Constraint (''Equation_21_No_Night_To_Morning_Consecutive_Shift_'' @ str i @ ''_'' @ str j)
         (add_expr (msum (map (\<lambda>k. of_var (the_var FX [i, j, k, 2])) (list_range s)))
                   (msum (map (\<lambda>k. of_var (the_var FX [i, j + 1, k, 1])) (list_range s))))
         LE (of_num 1))
       (list_range (m - 1))) (list_range n))"

definition cts_22 :: "nat \<Rightarrow> nat \<Rightarrow> nat \<Rightarrow> nat \<Rightarrow> constraint list" where
  "cts_22 n m s t =
     concat (map (\<lambda>i. map (\<lambda>j.
       Constraint (''Goal_Constraint_Equation_22_'' @ str i @ ''_'' @ str j)
         (sub_expr (add_expr (add_expr (add_expr
            (of_var (the_var FH [i, j]))
            (X_sum s t i (j + 1)))
            (of_var (the_var FH [i, j + 2])))
            (of_var (the_var (FD Neg 1) [i, j])))
            (of_var (the_var (FD Pos 1) [i, j])))
         EQ (of_num 2))
       (list_range (m - 2))) (list_range n))"

definition cts_23 :: "nat \<Rightarrow> nat \<Rightarrow> nat \<Rightarrow> nat \<Rightarrow> constraint list" where
  "cts_23 n m s t =
     concat (map (\<lambda>i. map (\<lambda>j.
       Constraint (''Goal_Constraint_Equation_23_'' @ str i @ ''_'' @ str j)
         (sub_expr (add_expr (add_expr (add_expr
            (X_sum s t i j)
            (of_var (the_var FH [i, j + 1])))
            (X_sum s t i (j + 1)))
            (of_var (the_var (FD Neg 2) [i, j])))
            (of_var (the_var (FD Pos 2) [i, j])))
         EQ (of_num 2))
       (list_range (m - 2))) (list_range n))"

definition cts_24 :: "nat \<Rightarrow> nat \<Rightarrow> nat \<Rightarrow> nat \<Rightarrow> constraint list" where
  "cts_24 n m s t =
     map (\<lambda>i.
       Constraint (''Goal_Constraint_Equation_24_'' @ str i)
         (sub_expr (add_expr
            (msum (concat (map (\<lambda>j. concat (map (\<lambda>k. map (\<lambda>l. of_var (the_var FX [i, j, k, l]))
               (list_range t)) (list_range s))) (list_range m))))
            (of_var (the_var (FD Neg 3) [i])))
            (of_var (the_var (FD Pos 3) [i])))
         EQ (of_num 22))
       (list_range n)"

text \<open>The score of a person for a section when the table has it.\<close>

definition score :: "competency \<Rightarrow> nat \<Rightarrow> nat \<Rightarrow> rat" where
  "score competency i k =
     (case competency i of None \<Rightarrow> 0 | Some row \<Rightarrow> (case row k of None \<Rightarrow> 0 | Some c \<Rightarrow> c))"

definition quality_cts ::
  "nat \<Rightarrow> nat \<Rightarrow> rat \<Rightarrow> string \<Rightarrow> nat \<Rightarrow> nat \<Rightarrow> nat \<Rightarrow> competency \<Rightarrow> constraint list" where
  "quality_cts k g target nm n m t competency =
     concat (map (\<lambda>j. map (\<lambda>l.
       Constraint (nm @ ''_'' @ str j @ ''_'' @ str l)
         (sub_expr (add_expr
            (msum (map (\<lambda>i. LinExpr [(score competency i k, the_var FX [i, j, k, l])] 0) (list_range n)))
            (of_var (the_var (FD Neg g) [j, l])))
            (of_var (the_var (FD Pos g) [j, l])))
         EQ (of_num target))
       (list_range t)) (list_range m))"

definition all_constraints :: "nat \<Rightarrow> nat \<Rightarrow> nat \<Rightarrow> nat \<Rightarrow> competency \<Rightarrow> constraint list" where
  "all_constraints n m s t competency =
     requirement_cts 1 3 ''Equation_6_Personnel_Requirement_Section_1'' n m t @
     requirement_cts 2 4 ''Equation_7_Personnel_Requirement_Section_2'' n m t @
     requirement_cts 3 4 ''Equation_8_Personnel_Requirement_Section_3'' n m t @
     requirement_cts 3 4 ''Equation_9_Personnel_Requirement_Section_4'' n m t @
     requirement_cts 5 6 ''Equation_10_Personnel_Requirement_Section_5'' n m t @
     requirement_cts 6 8 ''Equation_11_Personnel_Requirement_Section_6'' n m t @
     requirement_cts 7 5 ''Equation_12_Personnel_Requirement_Section_7'' n m t @
     cts_13 n m s t @ cts_14 n m s t @ cts_15_16 n m @ cts_17_18 n m s @ cts_19_20 n m s @
     cts_21 n m s @ cts_22 n m s t @ cts_23 n m s t @ cts_24 n m s t @
     quality_cts 1 4 3 ''Equation_25'' n m t competency @
     quality_cts 2 5 4 ''Equation_26'' n m t competency @
     quality_cts 3 6 4 ''Equation_27'' n m t competency @
     quality_cts 4 7 4 ''Equation_28'' n m t competency @
     quality_cts 5 8 6 ''Equation_29'' n m t competency @
     quality_cts 6 9 8 ''Equation_30'' n m t competency @
     quality_cts 7 10 5 ''Equation_31'' n m t competency"

text \<open>The sum the objective cell builds when every lookup succeeds.\<close>

definition dev_pair_sum :: "nat \<Rightarrow> nat \<Rightarrow> nat \<Rightarrow> linexpr" where
  "dev_pair_sum g n m =
     msum (concat (map (\<lambda>i. map (\<lambda>j.
       add_expr (of_var (the_var (FD Neg g) [i, j])) (of_var (the_var (FD Pos g) [i, j])))
       (list_range m)) (list_range n)))"

definition dev_pos_sum :: "nat \<Rightarrow> nat \<Rightarrow> nat \<Rightarrow> linexpr" where
  "dev_pos_sum g m t =
     msum (concat (map (\<lambda>j. map (\<lambda>l. of_var (the_var (FD Pos g) [j, l])) (list_range t)) (list_range m)))"

definition objective_sum :: "nat \<Rightarrow> nat \<Rightarrow> nat \<Rightarrow> linexpr" where
  "objective_sum n m t =
     add_expr (add_expr (add_expr (add_expr (add_expr (add_expr (add_expr (add_expr (add_expr
       (dev_pair_sum 1 n m)
       (dev_pair_sum 2 n m))
       (msum (map (\<lambda>i. add_expr (of_var (the_var (FD Neg 3) [i + 1])) (of_var (the_var (FD Pos 3) [i + 1])))
          (py_range 0 n))))
       (dev_pos_sum 4 m t)) (dev_pos_sum 5 m t)) (dev_pos_sum 6 m t)) (dev_pos_sum 7 m t))
       (dev_pos_sum 8 m t)) (dev_pos_sum 9 m t)) (dev_pos_sum 10 m t)"

text \<open>
  The dimensions the cells are written for: the constraints name sections 1 to 7 and
  shifts 1 and 2, so \<open>s \<ge> 7\<close> and \<open>t \<ge> 2\<close> (a smaller \<open>s\<close> or \<open>t\<close> makes a lookup in \<open>X\<close>
  raise \<open>KeyError\<close>); with at least one person and one day no sum of a constraint is
  empty. The table must score every person on each of the seven sections.
\<close>

definition valid_dims :: "nat \<Rightarrow> nat \<Rightarrow> nat \<Rightarrow> nat \<Rightarrow> bool" where
  "valid_dims n m s t \<longleftrightarrow> 1 \<le> n \<and> 1 \<le> m \<and> 7 \<le> s \<and> 2 \<le> t"

definition has_score :: "competency \<Rightarrow> nat \<Rightarrow> nat \<Rightarrow> bool" where
  "has_score competency i k \<longleftrightarrow>
     (case competency i of None \<Rightarrow> False | Some row \<Rightarrow> (case row k of None \<Rightarrow> False | Some c \<Rightarrow> True))"

definition total_competency :: "nat \<Rightarrow> competency \<Rightarrow> bool" where
  "total_competency n competency \<longleftrightarrow>
     list_all (\<lambda>i. list_all (\<lambda>k. has_score competency i k) (list_range 7)) (list_range n)"

section \<open>The statements of the specification\<close>

text \<open>
  The objective in the words of the specification: both deviations of goals 1 and 2 at
  every (person, day), both deviations of goal 3 at every person, and the positive
  deviation alone of goals 4 to 10 at every (day, shift).
\<close>

definition objective_vars :: "nat \<Rightarrow> nat \<Rightarrow> nat \<Rightarrow> var list" where
  "objective_vars n m t =
     concat (map (\<lambda>g. concat (map (\<lambda>i. concat (map (\<lambda>j.
       [the_var (FD Neg g) [i, j], the_var (FD Pos g) [i, j]])
       (list_range m))) (list_range n))) [1, 2]) @
     concat (map (\<lambda>i. [the_var (FD Neg 3) [i], the_var (FD Pos 3) [i]]) (list_range n)) @
     concat (map (\<lambda>g. concat (map (\<lambda>j. map (\<lambda>l.
       the_var (FD Pos g) [j, l])
       (list_range t)) (list_range m))) [4, 5, 6, 7, 8, 9, 10])"

text \<open>The assignment and the leave variables, one at each in-range index tuple.\<close>

definition X_vars :: "nat \<Rightarrow> nat \<Rightarrow> nat \<Rightarrow> nat \<Rightarrow> var list" where
  "X_vars n m s t =
     concat (map (\<lambda>i. concat (map (\<lambda>j. concat (map (\<lambda>k. map (\<lambda>l.
       the_var FX [i, j, k, l]) (list_range t)) (list_range s))) (list_range m))) (list_range n))"

definition h_vars :: "nat \<Rightarrow> nat \<Rightarrow> var list" where
  "h_vars n m = concat (map (\<lambda>i. map (\<lambda>j. the_var FH [i, j]) (list_range m)) (list_range n))"

text \<open>The coefficient of a variable in an expression: the sum over its occurrences.\<close>

definition coeff :: "linexpr \<Rightarrow> var \<Rightarrow> rat" where
  "coeff e v = sum_list (map fst (filter (\<lambda>cv. snd cv = v) (terms e)))"

definition vars_of :: "constraint \<Rightarrow> var set" where
  "vars_of ct = snd ` set (terms (lhs ct)) \<union> snd ` set (terms (rhs ct))"

text \<open>The quality target of a section, and the left-hand side of its goal equality.\<close>

definition quality_target :: "nat \<Rightarrow> rat" where
  "quality_target k = [3, 4, 4, 4, 6, 8, 5] ! (k - 1)"

definition quality_lhs :: "competency \<Rightarrow> nat \<Rightarrow> nat \<Rightarrow> nat \<Rightarrow> nat \<Rightarrow> linexpr" where
  "quality_lhs competency n j k l =
     LinExpr
       (map (\<lambda>i. (score competency i k, the_var FX [i, j, k, l])) (list_range n) @
        [(1, the_var (FD Neg (k + 3)) [j, l]), (- 1, the_var (FD Pos (k + 3)) [j, l])])
       0"

text \<open>The left-hand side of the goal-2 equality of person \<open>i\<close> and day \<open>j\<close>.\<close>

definition X_terms :: "nat \<Rightarrow> nat \<Rightarrow> nat \<Rightarrow> nat \<Rightarrow> (rat \<times> var) list" where
  "X_terms s t i j =
     concat (map (\<lambda>k. map (\<lambda>l. (1, the_var FX [i, j, k, l])) (list_range t)) (list_range s))"

definition goal_2_lhs :: "nat \<Rightarrow> nat \<Rightarrow> nat \<Rightarrow> nat \<Rightarrow> linexpr" where
  "goal_2_lhs s t i j =
     LinExpr
       (X_terms s t i j @ [(1, the_var FH [i, j + 1])] @ X_terms s t i (j + 1) @
        [(1, the_var (FD Neg 2) [i, j]), (- 1, the_var (FD Pos 2) [i, j])])
       0"

text \<open>The leave days of person \<open>i\<close> in the seven days from \<open>j\<close>.\<close>

definition window_sum :: "nat \<Rightarrow> nat \<Rightarrow> linexpr" where
  "window_sum i j = LinExpr (map (\<lambda>d. (1, the_var FH [i, j + d])) [0..<7]) 0"

text \<open>A constraint on leave alone: its left-hand side is a non-empty sum of leave variables.\<close>

definition leave_only :: "constraint \<Rightarrow> bool" where
  "leave_only ct \<longleftrightarrow> terms (lhs ct) \<noteq> [] \<and> list_all (\<lambda>cv. origin (snd cv) = FH) (terms (lhs ct))"

text \<open>
  A constraint on section 4 alone: its left-hand side is a non-empty sum of assignment
  variables that all have section index 4.
\<close>

definition section_4_only :: "constraint \<Rightarrow> bool" where
  "section_4_only ct \<longleftrightarrow>
     terms (lhs ct) \<noteq> [] \<and>
     list_all (\<lambda>cv. origin (snd cv) = FX \<and> index (snd cv) ! 2 = 4) (terms (lhs ct))"

text \<open>A competency table that scores every person 1 on every section.\<close>

definition unit_competency :: competency where
  "unit_competency = (\<lambda>i. Some (\<lambda>k. Some 1))"

section \<open>Decoding a variable name\<close>

text \<open>
  Modelled from the spec: the decoder (the \<^verbatim>\<open>Scheduler\<close> class) is not among the
  sources. The specification asks it to resolve, for every variable name, the family and
  the index tuple the name was built from. The name is cut at the underscores; the
  leading tokens give the family and every other token is a decimal number.
\<close>

fun split_on :: "char \<Rightarrow> string \<Rightarrow> string list" where
  "split_on c [] = [[]]"
| "split_on c (x # xs) =
     (if x = c then [] # split_on c xs
      else (case split_on c xs of [] \<Rightarrow> [[x]] | w # ws \<Rightarrow> (x # w) # ws))"

definition digit_val :: "char \<Rightarrow> nat option" where
  "digit_val c = map_of (zip ''0123456789'' [0..<10]) c"

definition parse_step :: "char \<Rightarrow> nat option \<Rightarrow> nat option" where
  "parse_step c acc =
     (case acc of None \<Rightarrow> None
      | Some a \<Rightarrow> (case digit_val c of None \<Rightarrow> None | Some d \<Rightarrow> Some (10 * a + d)))"

definition parse_nat :: "string \<Rightarrow> nat option" where
  "parse_nat w = (if w = [] then None else fold parse_step w (Some 0))"

fun parse_keys :: "string list \<Rightarrow> nat list option" where
  "parse_keys [] = Some []"
| "parse_keys (w # ws) =
     (case parse_nat w of None \<Rightarrow> None
      | Some k \<Rightarrow> (case parse_keys ws of None \<Rightarrow> None | Some ks \<Rightarrow> Some (k # ks)))"

definition with_family :: "family \<Rightarrow> string list \<Rightarrow> (family \<times> nat list) option" where
  "with_family fam ws = (case parse_keys ws of None \<Rightarrow> None | Some ks \<Rightarrow> Some (fam, ks))"

fun decode_tokens :: "string list \<Rightarrow> (family \<times> nat list) option" where
  "decode_tokens [] = None"
| "decode_tokens (f # ws) =
     (if f = ''X'' then with_family FX ws
      else if f = ''h'' then with_family FH ws
      else if f = ''d'' then
        (case ws of
           sg # g # ks \<Rightarrow>
             (case parse_nat g of
                None \<Rightarrow> None
              | Some goal \<Rightarrow>
                  if sg = ''neg'' then with_family (FD Neg goal) ks
                  else if sg = ''pos'' then with_family (FD Pos goal) ks
                  else None)
         | _ \<Rightarrow> None)
      else None)"

text \<open>
  Modelled from the spec: the decoder's entry point, which resolves a variable name to
  its family and index tuple (the \<^verbatim>\<open>Scheduler\<close> class is not among the sources).
\<close>

definition decode_name :: "string \<Rightarrow> (family \<times> nat list) option" where
  "decode_name nm = decode_tokens (split_on CHR ''_'' nm)"

section \<open>Properties\<close>

subsection \<open>Evaluating generators and loops\<close>

lemma bindE_Inr [simp]: "bindE (Inr x) f = f x"
  by (simp add: bindE_def)

lemma bindE_Inl [simp]: "bindE (Inl e) f = Inl e"
  by (simp add: bindE_def)

lemma mapE_cong:
  "xs = ys \<Longrightarrow> (\<And>x. x \<in> set ys \<Longrightarrow> f x = g x) \<Longrightarrow> mapE f xs = mapE g ys"
  by (induction ys arbitrary: xs) auto

lemma mapE_cong_simp [cong]:
  "xs = ys \<Longrightarrow> (\<And>x. x \<in> set ys =simp=> f x = g x) \<Longrightarrow> mapE f xs = mapE g ys"
  unfolding simp_implies_def by (rule mapE_cong)

lemma forE_cong:
  "xs = ys \<Longrightarrow> (\<And>x st. x \<in> set ys \<Longrightarrow> body x st = body' x st) \<Longrightarrow> st = st' \<Longrightarrow>
   forE xs body st = forE ys body' st'"
  by (induction ys arbitrary: xs st st') (auto simp: bindE_def split: sum.splits)

lemma forE_cong_simp [cong]:
  "xs = ys \<Longrightarrow> (\<And>x st. x \<in> set ys =simp=> body x st = body' x st) \<Longrightarrow> st = st' \<Longrightarrow>
   forE xs body st = forE ys body' st'"
  unfolding simp_implies_def by (rule forE_cong)

lemma mapE_Inr [simp]: "mapE (\<lambda>x. Inr (g x)) xs = Inr (map g xs)"
  by (induction xs) auto

lemma forE_adds [simp]:
  "forE xs (\<lambda>x M. Inr (M\<lparr>constraints := constraints M @ g x\<rparr>)) M =
   Inr (M\<lparr>constraints := constraints M @ concat (map g xs)\<rparr>)"
  by (induction xs arbitrary: M) auto

lemma in_list_range [simp]: "x \<in> set (list_range n) \<longleftrightarrow> 1 \<le> x \<and> x \<le> n"
  by (auto simp: list_range_def py_range_def)

lemma le_diff_pos [simp]: "(Suc 0 \<le> x \<and> x \<le> m - c) = (Suc 0 \<le> x \<and> x + c \<le> m)"
  by auto

lemma in_py_range [simp]: "x \<in> set (py_range a b) \<longleftrightarrow> a \<le> x \<and> x < b"
  by (auto simp: py_range_def)

subsection \<open>Lookups in the dicts and lists of variables\<close>

lemma map_of_row:
  "map_of (map (\<lambda>b. ((a, b), f a b)) bs) (x, y) = (if x = a \<and> y \<in> set bs then Some (f x y) else None)"
  by (induction bs) auto

lemma map_of_matrix:
  "map_of (concat (map (\<lambda>a. map (\<lambda>b. ((a, b), f a b)) bs) as)) (x, y) =
     (if x \<in> set as \<and> y \<in> set bs then Some (f x y) else None)"
  by (induction as) (auto simp: map_of_append map_of_row map_add_def split: option.splits)

lemma getitem_matrix:
  "getitem (continuous_var_matrix fam ks1 ks2 nm) (a, b) =
     (if a \<in> set ks1 \<and> b \<in> set ks2
      then Inr (Var fam [a, b] (nm @ ''_'' @ str a @ ''_'' @ str b) Continuous)
      else Inl KeyError)"
  unfolding getitem_def continuous_var_matrix_def
  by (simp add: map_of_matrix)


lemma str_digit: "k < 10 \<Longrightarrow> str k = [digit_char k]"
  by (simp add: str.simps)

lemma str_10: "str 10 = ''10''"
  by (simp add: str.simps [of 10] str_digit digit_char_def)

lemma family_names:
  "family_name (FD Neg 1) = ''d_neg_1''" "family_name (FD Pos 1) = ''d_pos_1''"
  "family_name (FD Neg 2) = ''d_neg_2''" "family_name (FD Pos 2) = ''d_pos_2''"
  "family_name (FD Neg 3) = ''d_neg_3''" "family_name (FD Pos 3) = ''d_pos_3''"
  "family_name (FD Neg 4) = ''d_neg_4''" "family_name (FD Pos 4) = ''d_pos_4''"
  "family_name (FD Neg 5) = ''d_neg_5''" "family_name (FD Pos 5) = ''d_pos_5''"
  "family_name (FD Neg 6) = ''d_neg_6''" "family_name (FD Pos 6) = ''d_pos_6''"
  "family_name (FD Neg 7) = ''d_neg_7''" "family_name (FD Pos 7) = ''d_pos_7''"
  "family_name (FD Neg 8) = ''d_neg_8''" "family_name (FD Pos 8) = ''d_pos_8''"
  "family_name (FD Neg 9) = ''d_neg_9''" "family_name (FD Pos 9) = ''d_pos_9''"
  "family_name (FD Neg 10) = ''d_neg_10''" "family_name (FD Pos 10) = ''d_pos_10''"
  by (simp_all add: str_digit str_10 digit_char_def)

lemma map_of_fun:
  "\<forall>(k, v) \<in> set xs. v = f k \<Longrightarrow>
   map_of xs k = (if k \<in> fst ` set xs then Some (f k) else None)"
  by (induction xs) (auto simp: image_iff)

lemma getitem_X:
  "getitem (X n m s t) (i, j, k, l) =
     (if 1 \<le> i \<and> i \<le> n \<and> 1 \<le> j \<and> j \<le> m \<and> 1 \<le> k \<and> k \<le> s \<and> 1 \<le> l \<and> l \<le> t
      then Inr (the_var FX [i, j, k, l]) else Inl KeyError)"
proof -
  have v: "\<forall>(key, v) \<in> set (X n m s t). v = (\<lambda>(i, j, k, l). the_var FX [i, j, k, l]) key"
    by (auto simp: X_def the_var_def var_name_def binary_var_def)
  have d: "(i, j, k, l) \<in> fst ` set (X n m s t) \<longleftrightarrow>
      1 \<le> i \<and> i \<le> n \<and> 1 \<le> j \<and> j \<le> m \<and> 1 \<le> k \<and> k \<le> s \<and> 1 \<le> l \<and> l \<le> t"
    by (auto simp: X_def image_iff) 
  show ?thesis
    unfolding getitem_def map_of_fun [OF v] by (simp add: d)
qed

lemma getitem_h:
  "getitem (h n m) (i, j) =
     (if 1 \<le> i \<and> i \<le> n \<and> 1 \<le> j \<and> j \<le> m then Inr (the_var FH [i, j]) else Inl KeyError)"
proof -
  have v: "\<forall>(key, v) \<in> set (h n m). v = (\<lambda>(i, j). the_var FH [i, j]) key"
    by (auto simp: h_def the_var_def var_name_def binary_var_def)
  have d: "(i, j) \<in> fst ` set (h n m) \<longleftrightarrow> 1 \<le> i \<and> i \<le> n \<and> 1 \<le> j \<and> j \<le> m"
    by (auto simp: h_def image_iff)
  show ?thesis
    unfolding getitem_def map_of_fun [OF v] by (simp add: d)
qed

lemma getitem_dev:
  "family_name fam = nm \<Longrightarrow> family_type fam = Continuous \<Longrightarrow>
   getitem (continuous_var_matrix fam (py_range a1 b1) (py_range a2 b2) nm) (i, j) =
     (if a1 \<le> i \<and> i < b1 \<and> a2 \<le> j \<and> j < b2 then Inr (the_var fam [i, j]) else Inl KeyError)"
  by (simp add: getitem_matrix the_var_def var_name_def)

lemma list_getitem_dev:
  "family_name fam = nm \<Longrightarrow> family_type fam = Continuous \<Longrightarrow>
   list_getitem (continuous_var_list fam (py_range 1 (n + 1)) nm) i =
     (if 0 \<le> i \<and> i < int n then Inr (the_var fam [nat i + 1])
      else if - int n \<le> i \<and> i < 0 then Inr (the_var fam [nat (int n + i) + 1])
      else Inl IndexError)"
  by (auto simp: list_getitem_def continuous_var_list_def py_range_def the_var_def var_name_def Let_def
      simp del: upt_Suc)


lemma item_X:
  "item (X n m s t) (i, j, k, l) =
     (if 1 \<le> i \<and> i \<le> n \<and> 1 \<le> j \<and> j \<le> m \<and> 1 \<le> k \<and> k \<le> s \<and> 1 \<le> l \<and> l \<le> t
      then Inr (of_var (the_var FX [i, j, k, l])) else Inl KeyError)"
  by (simp add: item_def getitem_X)

lemma item_h:
  "item (h n m) (i, j) =
     (if 1 \<le> i \<and> i \<le> n \<and> 1 \<le> j \<and> j \<le> m then Inr (of_var (the_var FH [i, j])) else Inl KeyError)"
  by (simp add: item_def getitem_h)

lemma plusE_Inr [simp]: "plusE (Inr a) (Inr b) = Inr (add_expr a b)"
  by (simp add: plusE_def)

lemma minusE_Inr [simp]: "minusE (Inr a) (Inr b) = Inr (sub_expr a b)"
  by (simp add: minusE_def)

lemma add_ct_Inr [simp]:
  "add_ct nm (Inr a) sn (Inr b) M = Inr (M\<lparr>constraints := constraints M @ [Constraint nm a sn b]\<rparr>)"
  by (simp add: add_ct_def add_constraint_def)

lemma sum_over_cong [cong]:
  "xs = ys \<Longrightarrow> (\<And>x. x \<in> set ys =simp=> f x = g x) \<Longrightarrow> sum_over xs f = sum_over ys g"
  unfolding sum_over_def simp_implies_def by (simp cong: mapE_cong)

lemma sum_over2_cong [cong]:
  "as = as' \<Longrightarrow> bs = bs' \<Longrightarrow>
   (\<And>a b. a \<in> set as' =simp=> b \<in> set bs' =simp=> f a b = g a b) \<Longrightarrow>
   sum_over2 as bs f = sum_over2 as' bs' g"
  unfolding sum_over2_def mapE2_def simp_implies_def by (simp cong: mapE_cong)

lemma sum_over3_cong [cong]:
  "as = as' \<Longrightarrow> bs = bs' \<Longrightarrow> cs = cs' \<Longrightarrow>
   (\<And>a b c. a \<in> set as' =simp=> b \<in> set bs' =simp=> c \<in> set cs' =simp=> f a b c = g a b c) \<Longrightarrow>
   sum_over3 as bs cs f = sum_over3 as' bs' cs' g"
  unfolding sum_over3_def mapE3_def mapE2_def simp_implies_def by (simp cong: mapE_cong)

lemma sum_over_Inr [simp]: "sum_over xs (\<lambda>x. Inr (g x)) = Inr (msum (map g xs))"
  by (simp add: sum_over_def)

lemma sum_over2_Inr [simp]:
  "sum_over2 as bs (\<lambda>a b. Inr (g a b)) = Inr (msum (concat (map (\<lambda>a. map (g a) bs) as)))"
  by (simp add: sum_over2_def mapE2_def)

lemma sum_over3_Inr [simp]:
  "sum_over3 as bs cs (\<lambda>a b c. Inr (g a b c)) =
   Inr (msum (concat (map (\<lambda>a. concat (map (\<lambda>b. map (g a b) cs) bs)) as)))"
  by (simp add: sum_over3_def mapE3_def mapE2_def)


lemma item_dev:
  "family_name fam = nm \<Longrightarrow> family_type fam = Continuous \<Longrightarrow>
   item (continuous_var_matrix fam (py_range a1 b1) (py_range a2 b2) nm) (i, j) =
     (if a1 \<le> i \<and> i < b1 \<and> a2 \<le> j \<and> j < b2 then Inr (of_var (the_var fam [i, j])) else Inl KeyError)"
  by (simp add: item_def getitem_dev)

lemma list_at_dev:
  "family_name fam = nm \<Longrightarrow> family_type fam = Continuous \<Longrightarrow> 0 \<le> i \<Longrightarrow> i < int n \<Longrightarrow>
   list_at (continuous_var_list fam (py_range 1 (n + 1)) nm) i = Inr (of_var (the_var fam [nat i + 1]))"
  using list_getitem_dev [of fam nm n i] by (simp add: list_at_def)

lemma item_d_neg_1:
  "item (d_neg_1 n m) (i, j) =
     (if 1 \<le> i \<and> i \<le> n \<and> 1 \<le> j \<and> j \<le> m then Inr (of_var (the_var (FD Neg 1) [i, j]))
      else Inl KeyError)"
  unfolding d_neg_1_def by (subst item_dev) (auto simp: str_digit str_10 digit_char_def)

lemma item_d_pos_1:
  "item (d_pos_1 n m) (i, j) =
     (if 1 \<le> i \<and> i \<le> n \<and> 1 \<le> j \<and> j \<le> m then Inr (of_var (the_var (FD Pos 1) [i, j]))
      else Inl KeyError)"
  unfolding d_pos_1_def by (subst item_dev) (auto simp: str_digit str_10 digit_char_def)

lemma item_d_neg_2:
  "item (d_neg_2 n m) (i, j) =
     (if 1 \<le> i \<and> i \<le> n \<and> 1 \<le> j \<and> j \<le> m then Inr (of_var (the_var (FD Neg 2) [i, j]))
      else Inl KeyError)"
  unfolding d_neg_2_def by (subst item_dev) (auto simp: str_digit str_10 digit_char_def)

lemma item_d_pos_2:
  "item (d_pos_2 n m) (i, j) =
     (if 1 \<le> i \<and> i \<le> n \<and> 1 \<le> j \<and> j \<le> m then Inr (of_var (the_var (FD Pos 2) [i, j]))
      else Inl KeyError)"
  unfolding d_pos_2_def by (subst item_dev) (auto simp: str_digit str_10 digit_char_def)

lemma item_d_neg_4:
  "item (d_neg_4 m t) (i, j) =
     (if 1 \<le> i \<and> i \<le> m \<and> 1 \<le> j \<and> j \<le> t then Inr (of_var (the_var (FD Neg 4) [i, j]))
      else Inl KeyError)"
  unfolding d_neg_4_def by (subst item_dev) (auto simp: str_digit str_10 digit_char_def)

lemma item_d_pos_4:
  "item (d_pos_4 m t) (i, j) =
     (if 1 \<le> i \<and> i \<le> m \<and> 1 \<le> j \<and> j \<le> t then Inr (of_var (the_var (FD Pos 4) [i, j]))
      else Inl KeyError)"
  unfolding d_pos_4_def by (subst item_dev) (auto simp: str_digit str_10 digit_char_def)

lemma item_d_neg_5:
  "item (d_neg_5 m t) (i, j) =
     (if 1 \<le> i \<and> i \<le> m \<and> 1 \<le> j \<and> j \<le> t then Inr (of_var (the_var (FD Neg 5) [i, j]))
      else Inl KeyError)"
  unfolding d_neg_5_def by (subst item_dev) (auto simp: str_digit str_10 digit_char_def)

lemma item_d_pos_5:
  "item (d_pos_5 m t) (i, j) =
     (if 1 \<le> i \<and> i \<le> m \<and> 1 \<le> j \<and> j \<le> t then Inr (of_var (the_var (FD Pos 5) [i, j]))
      else Inl KeyError)"
  unfolding d_pos_5_def by (subst item_dev) (auto simp: str_digit str_10 digit_char_def)

lemma item_d_neg_6:
  "item (d_neg_6 m t) (i, j) =
     (if 1 \<le> i \<and> i \<le> m \<and> j \<le> t then Inr (of_var (the_var (FD Neg 6) [i, j]))
      else Inl KeyError)"
  unfolding d_neg_6_def by (subst item_dev) (auto simp: str_digit str_10 digit_char_def)

lemma item_d_pos_6:
  "item (d_pos_6 m t) (i, j) =
     (if 1 \<le> i \<and> i \<le> m \<and> 1 \<le> j \<and> j \<le> t then Inr (of_var (the_var (FD Pos 6) [i, j]))
      else Inl KeyError)"
  unfolding d_pos_6_def by (subst item_dev) (auto simp: str_digit str_10 digit_char_def)

lemma item_d_neg_7:
  "item (d_neg_7 m t) (i, j) =
     (if 1 \<le> i \<and> i \<le> m \<and> 1 \<le> j \<and> j \<le> t then Inr (of_var (the_var (FD Neg 7) [i, j]))
      else Inl KeyError)"
  unfolding d_neg_7_def by (subst item_dev) (auto simp: str_digit str_10 digit_char_def)

lemma item_d_pos_7:
  "item (d_pos_7 m t) (i, j) =
     (if 1 \<le> i \<and> i \<le> m \<and> 1 \<le> j \<and> j \<le> t then Inr (of_var (the_var (FD Pos 7) [i, j]))
      else Inl KeyError)"
  unfolding d_pos_7_def by (subst item_dev) (auto simp: str_digit str_10 digit_char_def)

lemma item_d_neg_8:
  "item (d_neg_8 m t) (i, j) =
     (if 1 \<le> i \<and> i \<le> m \<and> 1 \<le> j \<and> j \<le> t then Inr (of_var (the_var (FD Neg 8) [i, j]))
      else Inl KeyError)"
  unfolding d_neg_8_def by (subst item_dev) (auto simp: str_digit str_10 digit_char_def)

lemma item_d_pos_8:
  "item (d_pos_8 m t) (i, j) =
     (if 1 \<le> i \<and> i \<le> m \<and> 1 \<le> j \<and> j \<le> t then Inr (of_var (the_var (FD Pos 8) [i, j]))
      else Inl KeyError)"
  unfolding d_pos_8_def by (subst item_dev) (auto simp: str_digit str_10 digit_char_def)

lemma item_d_neg_9:
  "item (d_neg_9 m t) (i, j) =
     (if 1 \<le> i \<and> i \<le> m \<and> 1 \<le> j \<and> j \<le> t then Inr (of_var (the_var (FD Neg 9) [i, j]))
      else Inl KeyError)"
  unfolding d_neg_9_def by (subst item_dev) (auto simp: str_digit str_10 digit_char_def)

lemma item_d_pos_9:
  "item (d_pos_9 m t) (i, j) =
     (if 1 \<le> i \<and> i \<le> m \<and> 1 \<le> j \<and> j \<le> t then Inr (of_var (the_var (FD Pos 9) [i, j]))
      else Inl KeyError)"
  unfolding d_pos_9_def by (subst item_dev) (auto simp: str_digit str_10 digit_char_def)

lemma item_d_neg_10:
  "item (d_neg_10 m t) (i, j) =
     (if 1 \<le> i \<and> i \<le> m \<and> 1 \<le> j \<and> j \<le> t then Inr (of_var (the_var (FD Neg 10) [i, j]))
      else Inl KeyError)"
  unfolding d_neg_10_def by (subst item_dev) (auto simp: str_digit str_10 digit_char_def)

lemma item_d_pos_10:
  "item (d_pos_10 m t) (i, j) =
     (if 1 \<le> i \<and> i \<le> m \<and> 1 \<le> j \<and> j \<le> t then Inr (of_var (the_var (FD Pos 10) [i, j]))
      else Inl KeyError)"
  unfolding d_pos_10_def by (subst item_dev) (auto simp: str_digit str_10 digit_char_def)

lemma list_at_d_neg_3:
  "0 \<le> i \<Longrightarrow> i < int n \<Longrightarrow> list_at (d_neg_3 n) i = Inr (of_var (the_var (FD Neg 3) [nat i + 1]))"
  unfolding d_neg_3_def by (rule list_at_dev) (simp_all add: str_digit digit_char_def)

lemma list_at_d_pos_3:
  "0 \<le> i \<Longrightarrow> i < int n \<Longrightarrow> list_at (d_pos_3 n) i = Inr (of_var (the_var (FD Pos 3) [nat i + 1]))"
  unfolding d_pos_3_def by (rule list_at_dev) (simp_all add: str_digit digit_char_def)

lemmas item_dev_all =
  item_d_neg_1 item_d_pos_1 item_d_neg_2 item_d_pos_2
  item_d_neg_4 item_d_pos_4 item_d_neg_5 item_d_pos_5
  item_d_neg_6 item_d_pos_6 item_d_neg_7 item_d_pos_7
  item_d_neg_8 item_d_pos_8 item_d_neg_9 item_d_pos_9
  item_d_neg_10 item_d_pos_10

subsection \<open>What each cell adds\<close>

lemma Suc_nat_pred: "Suc 0 \<le> x \<Longrightarrow> Suc (nat (int x - 1)) = x"
  by simp

lemma personnel_requirement_closed:
  "1 \<le> k \<Longrightarrow> k \<le> s \<Longrightarrow>
   personnel_requirement k req nm n m s t M =
   Inr (M\<lparr>constraints := constraints M @ requirement_cts k req nm n m t\<rparr>)"
  unfolding personnel_requirement_def requirement_cts_def by (simp add: item_X)

lemma Equation_13_closed:
  "Equation_13 n m s t M = Inr (M\<lparr>constraints := constraints M @ cts_13 n m s t\<rparr>)"
  unfolding Equation_13_def cts_13_def X_sum_def by (simp add: item_X)

lemma Equation_14_closed:
  "Equation_14 n m s t M = Inr (M\<lparr>constraints := constraints M @ cts_14 n m s t\<rparr>)"
  unfolding Equation_14_def cts_14_def X_sum_def by (simp add: item_X item_h)


lemma Equation_15_16_closed:
  "Equation_15_16 n m s t M = Inr (M\<lparr>constraints := constraints M @ cts_15_16 n m\<rparr>)"
  unfolding Equation_15_16_def cts_15_16_def leave_window_def by (simp add: item_h)

lemma Equation_17_18_closed:
  "2 \<le> t \<Longrightarrow> Equation_17_18 n m s t M = Inr (M\<lparr>constraints := constraints M @ cts_17_18 n m s\<rparr>)"
  unfolding Equation_17_18_def cts_17_18_def shift_sum_def by (simp add: item_X)

lemma Equation_19_20_closed:
  "2 \<le> t \<Longrightarrow> Equation_19_20 n m s t M = Inr (M\<lparr>constraints := constraints M @ cts_19_20 n m s\<rparr>)"
  unfolding Equation_19_20_def cts_19_20_def shift_sum_def by (simp add: item_X)

lemma Equation_21_closed:
  "2 \<le> t \<Longrightarrow> Equation_21 n m s t M = Inr (M\<lparr>constraints := constraints M @ cts_21 n m s\<rparr>)"
  unfolding Equation_21_def cts_21_def by (simp add: item_X)

lemma Goal_22_closed:
  "Goal_Constraint_Equation_22 n m s t M = Inr (M\<lparr>constraints := constraints M @ cts_22 n m s t\<rparr>)"
  unfolding Goal_Constraint_Equation_22_def cts_22_def X_sum_def
  by (simp add: item_X item_h item_d_neg_1 item_d_pos_1)

lemma Goal_23_closed:
  "Goal_Constraint_Equation_23 n m s t M = Inr (M\<lparr>constraints := constraints M @ cts_23 n m s t\<rparr>)"
  unfolding Goal_Constraint_Equation_23_def cts_23_def X_sum_def
  by (simp add: item_X item_h item_d_neg_2 item_d_pos_2)

lemma Goal_24_closed:
  "Goal_Constraint_Equation_24 n m s t M = Inr (M\<lparr>constraints := constraints M @ cts_24 n m s t\<rparr>)"
  unfolding Goal_Constraint_Equation_24_def cts_24_def
  by (simp add: item_X list_at_d_neg_3 list_at_d_pos_3 Suc_nat_pred)


lemma competency_term:
  "has_score competency i k \<Longrightarrow>
   bindE (person_competency competency i k) (\<lambda>c. mul_score x c) = Inr (LinExpr [(score competency i k, x)] 0)"
  by (auto simp: has_score_def person_competency_def mul_score_def score_def split: option.splits)

lemma has_scoreI:
  "total_competency n competency \<Longrightarrow> 1 \<le> i \<Longrightarrow> i \<le> n \<Longrightarrow> 1 \<le> k \<Longrightarrow> k \<le> 7 \<Longrightarrow> has_score competency i k"
  by (simp add: total_competency_def list_all_iff)

lemma quality_goal_closed:
  assumes "1 \<le> k" "k \<le> s"
    and "\<And>i. Suc 0 \<le> i \<Longrightarrow> i \<le> n \<Longrightarrow> has_score competency i k"
    and "\<And>j l. Suc 0 \<le> j \<Longrightarrow> j \<le> m \<Longrightarrow> Suc 0 \<le> l \<Longrightarrow> l \<le> t \<Longrightarrow>
           item dneg (j, l) = Inr (of_var (the_var (FD Neg g) [j, l]))"
    and "\<And>j l. Suc 0 \<le> j \<Longrightarrow> j \<le> m \<Longrightarrow> Suc 0 \<le> l \<Longrightarrow> l \<le> t \<Longrightarrow>
           item dpos (j, l) = Inr (of_var (the_var (FD Pos g) [j, l]))"
  shows "quality_goal k dneg dpos target nm n m s t competency M =
     Inr (M\<lparr>constraints := constraints M @ quality_cts k g target nm n m t competency\<rparr>)"
  unfolding quality_goal_def quality_cts_def using assms
  by (simp add: getitem_X competency_term)

lemma objective_expr_closed: "objective_expr n m t = Inr (objective_sum n m t)"
  unfolding objective_expr_def objective_sum_def dev_pair_sum_def dev_pos_sum_def
  by (simp add: item_dev_all list_at_d_neg_3 list_at_d_pos_3)

lemma Equation_6_closed:
  "7 \<le> s \<Longrightarrow> Equation_6 n m s t M =
   Inr (M\<lparr>constraints := constraints M @
     requirement_cts 1 3 ''Equation_6_Personnel_Requirement_Section_1'' n m t\<rparr>)"
  unfolding Equation_6_def by (rule personnel_requirement_closed) simp_all

lemma Equation_7_closed:
  "7 \<le> s \<Longrightarrow> Equation_7 n m s t M =
   Inr (M\<lparr>constraints := constraints M @
     requirement_cts 2 4 ''Equation_7_Personnel_Requirement_Section_2'' n m t\<rparr>)"
  unfolding Equation_7_def by (rule personnel_requirement_closed) simp_all

lemma Equation_8_closed:
  "7 \<le> s \<Longrightarrow> Equation_8 n m s t M =
   Inr (M\<lparr>constraints := constraints M @
     requirement_cts 3 4 ''Equation_8_Personnel_Requirement_Section_3'' n m t\<rparr>)"
  unfolding Equation_8_def by (rule personnel_requirement_closed) simp_all

lemma Equation_9_closed:
  "7 \<le> s \<Longrightarrow> Equation_9 n m s t M =
   Inr (M\<lparr>constraints := constraints M @
     requirement_cts 3 4 ''Equation_9_Personnel_Requirement_Section_4'' n m t\<rparr>)"
  unfolding Equation_9_def by (rule personnel_requirement_closed) simp_all

lemma Equation_10_closed:
  "7 \<le> s \<Longrightarrow> Equation_10 n m s t M =
   Inr (M\<lparr>constraints := constraints M @
     requirement_cts 5 6 ''Equation_10_Personnel_Requirement_Section_5'' n m t\<rparr>)"
  unfolding Equation_10_def by (rule personnel_requirement_closed) simp_all

lemma Equation_11_closed:
  "7 \<le> s \<Longrightarrow> Equation_11 n m s t M =
   Inr (M\<lparr>constraints := constraints M @
     requirement_cts 6 8 ''Equation_11_Personnel_Requirement_Section_6'' n m t\<rparr>)"
  unfolding Equation_11_def by (rule personnel_requirement_closed) simp_all

lemma Equation_12_closed:
  "7 \<le> s \<Longrightarrow> Equation_12 n m s t M =
   Inr (M\<lparr>constraints := constraints M @
     requirement_cts 7 5 ''Equation_12_Personnel_Requirement_Section_7'' n m t\<rparr>)"
  unfolding Equation_12_def by (rule personnel_requirement_closed) simp_all

lemma Equation_25_closed:
  "7 \<le> s \<Longrightarrow> total_competency n competency \<Longrightarrow>
   Equation_25 n m s t competency M =
   Inr (M\<lparr>constraints := constraints M @ quality_cts 1 4 3 ''Equation_25'' n m t competency\<rparr>)"
  unfolding Equation_25_def
  by (rule quality_goal_closed) (simp_all add: item_d_neg_4 item_d_pos_4 has_scoreI)

lemma Equation_26_closed:
  "7 \<le> s \<Longrightarrow> total_competency n competency \<Longrightarrow>
   Equation_26 n m s t competency M =
   Inr (M\<lparr>constraints := constraints M @ quality_cts 2 5 4 ''Equation_26'' n m t competency\<rparr>)"
  unfolding Equation_26_def
  by (rule quality_goal_closed) (simp_all add: item_d_neg_5 item_d_pos_5 has_scoreI)

lemma Equation_27_closed:
  "7 \<le> s \<Longrightarrow> total_competency n competency \<Longrightarrow>
   Equation_27 n m s t competency M =
   Inr (M\<lparr>constraints := constraints M @ quality_cts 3 6 4 ''Equation_27'' n m t competency\<rparr>)"
  unfolding Equation_27_def
  by (rule quality_goal_closed) (simp_all add: item_d_neg_6 item_d_pos_6 has_scoreI)

lemma Equation_28_closed:
  "7 \<le> s \<Longrightarrow> total_competency n competency \<Longrightarrow>
   Equation_28 n m s t competency M =
   Inr (M\<lparr>constraints := constraints M @ quality_cts 4 7 4 ''Equation_28'' n m t competency\<rparr>)"
  unfolding Equation_28_def
  by (rule quality_goal_closed) (simp_all add: item_d_neg_7 item_d_pos_7 has_scoreI)

lemma Equation_29_closed:
  "7 \<le> s \<Longrightarrow> total_competency n competency \<Longrightarrow>
   Equation_29 n m s t competency M =
   Inr (M\<lparr>constraints := constraints M @ quality_cts 5 8 6 ''Equation_29'' n m t competency\<rparr>)"
  unfolding Equation_29_def
  by (rule quality_goal_closed) (simp_all add: item_d_neg_8 item_d_pos_8 has_scoreI)

lemma Equation_30_closed:
  "7 \<le> s \<Longrightarrow> total_competency n competency \<Longrightarrow>
   Equation_30 n m s t competency M =
   Inr (M\<lparr>constraints := constraints M @ quality_cts 6 9 8 ''Equation_30'' n m t competency\<rparr>)"
  unfolding Equation_30_def
  by (rule quality_goal_closed) (simp_all add: item_d_neg_9 item_d_pos_9 has_scoreI)

lemma Equation_31_closed:
  "7 \<le> s \<Longrightarrow> total_competency n competency \<Longrightarrow>
   Equation_31 n m s t competency M =
   Inr (M\<lparr>constraints := constraints M @ quality_cts 7 10 5 ''Equation_31'' n m t competency\<rparr>)"
  unfolding Equation_31_def
  by (rule quality_goal_closed) (simp_all add: item_d_neg_10 item_d_pos_10 has_scoreI)

lemmas cells_closed =
  Equation_6_closed Equation_7_closed Equation_8_closed Equation_9_closed Equation_10_closed
  Equation_11_closed Equation_12_closed Equation_13_closed Equation_14_closed
  Equation_15_16_closed Equation_17_18_closed Equation_19_20_closed Equation_21_closed
  Goal_22_closed Goal_23_closed Goal_24_closed
  Equation_25_closed Equation_26_closed Equation_27_closed Equation_28_closed
  Equation_29_closed Equation_30_closed Equation_31_closed

lemma build_closed:
  assumes "valid_dims n m s t" "total_competency n competency"
  shows "build n m s t competency =
     Inr \<lparr>variables = map snd (X n m s t) @ map snd (h n m) @ deviation_variables n m t,
          objective = Some (objective_sum n m t),
          constraints = all_constraints n m s t competency\<rparr>"
proof -
  have s: "7 \<le> s" and t: "2 \<le> t"
    using assms(1) by (simp_all add: valid_dims_def)
  show ?thesis
    unfolding build_def cells_def forE.simps
    by (simp add: cells_closed s t assms(2) minimize_def objective_expr_closed
        create_variables_def register_def Model_def all_constraints_def)
qed

subsection \<open>The goal constraints of the built model\<close>

lemmas expr_defs = of_var_def of_num_def add_expr_def sub_expr_def negate_def msum_def

lemma build_constraints:
  "valid_dims n m s t \<Longrightarrow> total_competency n competency \<Longrightarrow>
   \<exists>M. build n m s t competency = Inr M \<and> constraints M = all_constraints n m s t competency
     \<and> objective M = Some (objective_sum n m t)
     \<and> variables M = map snd (X n m s t) @ map snd (h n m) @ deviation_variables n m t"
  by (simp add: build_closed)

lemma quality_cts_mem:
  assumes "1 \<le> j" "j \<le> m" "1 \<le> l" "l \<le> t"
  shows "\<exists>ct \<in> set (quality_cts k (k + 3) target nm n m t competency).
           lhs ct = quality_lhs competency n j k l \<and> csense ct = EQ \<and> rhs ct = of_num target"
proof -
  let ?ct = "Constraint (nm @ ''_'' @ str j @ ''_'' @ str l)
         (sub_expr (add_expr
            (msum (map (\<lambda>i. LinExpr [(score competency i k, the_var FX [i, j, k, l])] 0) (list_range n)))
            (of_var (the_var (FD Neg (k + 3)) [j, l])))
            (of_var (the_var (FD Pos (k + 3)) [j, l])))
         EQ (of_num target)"
  have "?ct \<in> set (quality_cts k (k + 3) target nm n m t competency)"
    using assms unfolding quality_cts_def
    by (auto intro!: bexI [of _ j] image_eqI [of _ _ l])
  moreover have "lhs ?ct = quality_lhs competency n j k l"
    by (simp add: quality_lhs_def expr_defs comp_def)
  ultimately show ?thesis
    by (intro bexI [of _ ?ct]) simp_all
qed

lemma concat_concat_singleton:
  "concat (concat (map (\<lambda>a. map (\<lambda>b. [g a b]) bs) as)) = concat (map (\<lambda>a. map (g a) bs) as)"
  by (induction as) simp_all

lemma sum_list_concat_0:
  "sum_list (concat (map (\<lambda>a. map (\<lambda>b. 0) (bs a)) as)) = (0::rat)"
  by (induction as) simp_all

lemma X_sum_terms: "X_sum s t i j = LinExpr (X_terms s t i j) 0"
  unfolding X_sum_def X_terms_def expr_defs
  by (simp add: map_concat comp_def concat_concat_singleton sum_list_concat_0)

lemma cts_23_mem:
  assumes "1 \<le> i" "i \<le> n" "1 \<le> j" "j \<le> m - 2"
  shows "\<exists>ct \<in> set (cts_23 n m s t).
           lhs ct = goal_2_lhs s t i j \<and> csense ct = EQ \<and> rhs ct = of_num 2"
proof -
  let ?ct = "Constraint (''Goal_Constraint_Equation_23_'' @ str i @ ''_'' @ str j)
         (sub_expr (add_expr (add_expr (add_expr
            (X_sum s t i j)
            (of_var (the_var FH [i, j + 1])))
            (X_sum s t i (j + 1)))
            (of_var (the_var (FD Neg 2) [i, j])))
            (of_var (the_var (FD Pos 2) [i, j])))
         EQ (of_num 2)"
  have "?ct \<in> set (cts_23 n m s t)"
    using assms unfolding cts_23_def
    by (auto intro!: bexI [of _ i] image_eqI [of _ _ j])
  moreover have "lhs ?ct = goal_2_lhs s t i j"
    by (simp add: goal_2_lhs_def X_sum_terms expr_defs)
  ultimately show ?thesis
    by (intro bexI [of _ ?ct]) simp_all
qed


lemma quality_in_all:
  "set (quality_cts 1 4 3 ''Equation_25'' n m t c) \<subseteq> set (all_constraints n m s t c)"
  "set (quality_cts 2 5 4 ''Equation_26'' n m t c) \<subseteq> set (all_constraints n m s t c)"
  "set (quality_cts 3 6 4 ''Equation_27'' n m t c) \<subseteq> set (all_constraints n m s t c)"
  "set (quality_cts 4 7 4 ''Equation_28'' n m t c) \<subseteq> set (all_constraints n m s t c)"
  "set (quality_cts 5 8 6 ''Equation_29'' n m t c) \<subseteq> set (all_constraints n m s t c)"
  "set (quality_cts 6 9 8 ''Equation_30'' n m t c) \<subseteq> set (all_constraints n m s t c)"
  "set (quality_cts 7 10 5 ''Equation_31'' n m t c) \<subseteq> set (all_constraints n m s t c)"
  unfolding all_constraints_def set_append by blast+

lemma quality_of_section:
  assumes "1 \<le> k" "k \<le> 7"
  shows "\<exists>nm. set (quality_cts k (k + 3) (quality_target k) nm n m t c) \<subseteq> set (all_constraints n m s t c)"
proof -
  from assms have "k = 1 \<or> k = 2 \<or> k = 3 \<or> k = 4 \<or> k = 5 \<or> k = 6 \<or> k = 7"
    by arith
  then show ?thesis
    using quality_in_all [of n m t c s]
    by (elim disjE) (simp_all add: quality_target_def, blast+)
qed

text \<open>
  Claim C4. For each section \<open>k\<close> in \<open>[1, 7]\<close>, every day \<open>j\<close> in \<open>[1, m]\<close> and every shift
  \<open>l\<close> in \<open>[1, t]\<close>, the built model contains an equality whose left-hand side is the sum
  over all persons \<open>i\<close> of \<open>X(i, j, k, l)\<close> times the competency score of \<open>i\<close> for \<open>k\<close>, plus
  the negative and minus the positive deviation of goal \<open>k + 3\<close> at \<open>(j, l)\<close>, and whose
  right-hand side is the target of section \<open>k\<close> from \<open>(3, 4, 4, 4, 6, 8, 5)\<close>.
\<close>

theorem quality_goal_constraints:
  assumes "valid_dims n m s t" "total_competency n competency"
  shows "\<exists>M. build n m s t competency = Inr M \<and>
           (\<forall>k \<in> {1..7}. \<forall>j \<in> {1..m}. \<forall>l \<in> {1..t}.
              \<exists>ct \<in> set (constraints M).
                lhs ct = quality_lhs competency n j k l \<and> csense ct = EQ \<and>
                rhs ct = of_num (quality_target k))"
proof -
  from build_constraints [OF assms] obtain M where
    M: "build n m s t competency = Inr M" "constraints M = all_constraints n m s t competency"
    by blast
  have "\<exists>ct \<in> set (constraints M).
          lhs ct = quality_lhs competency n j k l \<and> csense ct = EQ \<and> rhs ct = of_num (quality_target k)"
    if "k \<in> {1..7}" "j \<in> {1..m}" "l \<in> {1..t}" for k j l
  proof -
    from that obtain nm where
      sub: "set (quality_cts k (k + 3) (quality_target k) nm n m t competency)
              \<subseteq> set (all_constraints n m s t competency)"
      using quality_of_section [of k n m t competency s] by auto
    from that quality_cts_mem [of j m l t k "quality_target k" nm n competency]
    obtain ct where "ct \<in> set (quality_cts k (k + 3) (quality_target k) nm n m t competency)"
      "lhs ct = quality_lhs competency n j k l" "csense ct = EQ" "rhs ct = of_num (quality_target k)"
      by auto
    with sub M(2) show ?thesis by auto
  qed
  with M(1) show ?thesis by blast
qed

lemma valid_dims_small: "valid_dims 1 7 7 2"
  by (simp add: valid_dims_def)

lemma total_unit_competency: "total_competency n unit_competency"
  by (simp add: total_competency_def list_all_iff has_score_def unit_competency_def)

theorem quality_goal_constraints_witness:
  "valid_dims 1 7 7 2 \<and> total_competency 1 unit_competency \<and>
   (\<exists>M. build 1 7 7 2 unit_competency = Inr M \<and>
      (\<forall>k \<in> {1..7}. \<forall>j \<in> {1..7}. \<forall>l \<in> {1..2}.
         \<exists>ct \<in> set (constraints M).
           lhs ct = quality_lhs unit_competency 1 j k l \<and> csense ct = EQ \<and>
           rhs ct = of_num (quality_target k)))"
  using quality_goal_constraints [OF valid_dims_small total_unit_competency]
    valid_dims_small total_unit_competency
  by blast

text \<open>
  Claim C5. For every person \<open>i\<close> in \<open>[1, n]\<close> and every day \<open>j\<close> in \<open>[1, m - 2]\<close> the built
  model contains the single goal-2 equality: the assignments of \<open>i\<close> on day \<open>j\<close>, plus the
  leave of day \<open>j + 1\<close>, plus the assignments of day \<open>j + 1\<close>, plus the negative and minus
  the positive deviation of goal 2 at \<open>(i, j)\<close>, equal to 2.
\<close>

theorem goal_2_constraints:
  assumes "valid_dims n m s t" "total_competency n competency"
  shows "\<exists>M. build n m s t competency = Inr M \<and>
           (\<forall>i \<in> {1..n}. \<forall>j \<in> {1..m - 2}.
              \<exists>ct \<in> set (constraints M).
                lhs ct = goal_2_lhs s t i j \<and> csense ct = EQ \<and> rhs ct = of_num 2)"
proof -
  from build_constraints [OF assms] obtain M where
    M: "build n m s t competency = Inr M" "constraints M = all_constraints n m s t competency"
    by blast
  have "set (cts_23 n m s t) \<subseteq> set (constraints M)"
    unfolding M(2) all_constraints_def set_append by blast
  with cts_23_mem [of _ n _ m s t] have
    "\<forall>i \<in> {1..n}. \<forall>j \<in> {1..m - 2}.
       \<exists>ct \<in> set (constraints M). lhs ct = goal_2_lhs s t i j \<and> csense ct = EQ \<and> rhs ct = of_num 2"
    by (meson atLeastAtMost_iff subsetD)
  with M(1) show ?thesis by blast
qed


theorem goal_2_constraints_witness:
  "valid_dims 1 7 7 2 \<and> total_competency 1 unit_competency \<and>
   (\<exists>M. build 1 7 7 2 unit_competency = Inr M \<and>
      (\<forall>i \<in> {1..1}. \<forall>j \<in> {1..7 - 2}.
         \<exists>ct \<in> set (constraints M).
           lhs ct = goal_2_lhs 7 2 i j \<and> csense ct = EQ \<and> rhs ct = of_num 2))"
  using goal_2_constraints [OF valid_dims_small total_unit_competency]
    valid_dims_small total_unit_competency
  by blast

subsection \<open>The objective of the built model\<close>

lemma concat_concat_map:
  "concat (concat (map (\<lambda>a. map (g a) bs) as)) = concat (map (\<lambda>a. concat (map (g a) bs)) as)"
  by (induction as) simp_all

lemma dev_pair_sum_eq:
  "dev_pair_sum g n m =
   LinExpr (map (\<lambda>v. (1, v)) (concat (map (\<lambda>i. concat (map (\<lambda>j.
       [the_var (FD Neg g) [i, j], the_var (FD Pos g) [i, j]]) (list_range m))) (list_range n)))) 0"
  unfolding dev_pair_sum_def expr_defs
  by (simp add: map_concat comp_def concat_concat_map sum_list_concat_0)

lemma dev_pos_sum_eq:
  "dev_pos_sum g m t =
   LinExpr (map (\<lambda>v. (1, v)) (concat (map (\<lambda>j. map (\<lambda>l. the_var (FD Pos g) [j, l])
       (list_range t)) (list_range m)))) 0"
  unfolding dev_pos_sum_def expr_defs
  by (simp add: map_concat comp_def concat_concat_singleton sum_list_concat_0)

lemma map_py_range_shift: "map (\<lambda>i. f (i + 1)) (py_range 0 n) = map f (list_range n)"
  unfolding py_range_def list_range_def
  by (simp add: map_Suc_upt [symmetric] del: upt_Suc)

lemma goal_3_sum_eq:
  "msum (map (\<lambda>i. add_expr (of_var (the_var (FD Neg 3) [i + 1])) (of_var (the_var (FD Pos 3) [i + 1])))
     (py_range 0 n)) =
   LinExpr (map (\<lambda>v. (1, v)) (concat (map (\<lambda>i. [the_var (FD Neg 3) [i], the_var (FD Pos 3) [i]])
     (list_range n)))) 0"
proof -
  have "map (\<lambda>i. add_expr (of_var (the_var (FD Neg 3) [i + 1])) (of_var (the_var (FD Pos 3) [i + 1])))
          (py_range 0 n) =
        map (\<lambda>i. add_expr (of_var (the_var (FD Neg 3) [i])) (of_var (the_var (FD Pos 3) [i])))
          (list_range n)"
    by (rule map_py_range_shift)
  then show ?thesis
    unfolding expr_defs by (simp add: map_concat comp_def)
qed

lemma objective_sum_eq:
  "objective_sum n m t = LinExpr (map (\<lambda>v. (1, v)) (objective_vars n m t)) 0"
  unfolding objective_sum_def objective_vars_def dev_pair_sum_eq dev_pos_sum_eq goal_3_sum_eq
  by (simp add: add_expr_def)

lemma objective_vars_no_neg:
  "v \<in> set (objective_vars n m t) \<Longrightarrow> origin v = FD Neg g \<Longrightarrow> g = 1 \<or> g = 2 \<or> g = 3"
  unfolding objective_vars_def by (auto simp: the_var_def)

text \<open>
  Claim C3. The objective of the built model is the sum, every term with coefficient 1
  and with constant 0, of the variables \<open>objective_vars\<close>: both deviations of goals 1, 2
  and 3 at each of their index tuples, then the positive deviation of each of goals 4 to
  10 at every (day, shift); no negative deviation of a goal beyond 3 occurs in it.
\<close>

theorem objective_unweighted_sum:
  assumes "valid_dims n m s t" "total_competency n competency"
  shows "\<exists>M. build n m s t competency = Inr M \<and>
           objective M = Some (LinExpr (map (\<lambda>v. (1, v)) (objective_vars n m t)) 0) \<and>
           (\<forall>v \<in> set (objective_vars n m t). \<forall>g. origin v = FD Neg g \<longrightarrow> g = 1 \<or> g = 2 \<or> g = 3)"
  using build_constraints [OF assms] objective_vars_no_neg [of _ n m t]
  by (auto simp: objective_sum_eq)

theorem objective_unweighted_sum_witness:
  "valid_dims 1 7 7 2 \<and> total_competency 1 unit_competency \<and>
   (\<exists>M. build 1 7 7 2 unit_competency = Inr M \<and>
      objective M = Some (LinExpr (map (\<lambda>v. (1, v)) (objective_vars 1 7 2)) 0) \<and>
      (\<forall>v \<in> set (objective_vars 1 7 2). \<forall>g. origin v = FD Neg g \<longrightarrow> g = 1 \<or> g = 2 \<or> g = 3))"
  using objective_unweighted_sum [OF valid_dims_small total_unit_competency]
    valid_dims_small total_unit_competency
  by blast

subsection \<open>The constraints on leave alone\<close>

lemma terms_simps:
  "terms (of_var v) = [(1, v)]"
  "terms (of_num c) = []"
  "terms (add_expr a b) = terms a @ terms b"
  "terms (sub_expr a b) = terms a @ map (\<lambda>(c, v). (- c, v)) (terms b)"
  "terms (msum es) = concat (map terms es)"
  by (simp_all add: expr_defs)

lemma leave_only_iff:
  "leave_only (Constraint nm e sn r) \<longleftrightarrow>
     terms e \<noteq> [] \<and> (\<forall>cv \<in> set (terms e). origin (snd cv) = FH)"
  by (simp add: leave_only_def list_all_iff)

lemma origin_the_var [simp]: "origin (the_var fam key) = fam"
  by (simp add: the_var_def)

lemma index_the_var [simp]: "index (the_var fam key) = key"
  by (simp add: the_var_def)

lemma leave_window_eq: "leave_window i j = window_sum i j"
  unfolding leave_window_def window_sum_def expr_defs py_range_def
  by (simp add: comp_def del: upt_Suc)

lemma leave_only_ex:
  "leave_only (Constraint nm e sn r) \<Longrightarrow> \<exists>cv \<in> set (terms e). origin (snd cv) = FH"
  by (cases "terms e") (auto simp: leave_only_iff)

lemma leave_only_all:
  "leave_only (Constraint nm e sn r) \<Longrightarrow> \<forall>cv \<in> set (terms e). origin (snd cv) = FH"
  by (simp add: leave_only_iff)

lemma not_leave_only_requirement:
  "filter leave_only (requirement_cts k req nm n m t) = []"
  by (auto simp: filter_empty_conv requirement_cts_def terms_simps dest!: leave_only_ex)

lemma not_leave_only_13: "filter leave_only (cts_13 n m s t) = []"
  by (auto simp: filter_empty_conv cts_13_def X_sum_terms X_terms_def dest!: leave_only_ex)

lemma not_leave_only_14: "filter leave_only (cts_14 n m s t) = []"
  by (auto simp: filter_empty_conv cts_14_def X_sum_terms X_terms_def dest!: leave_only_ex)

lemma not_leave_only_17_18: "filter leave_only (cts_17_18 n m s) = []"
  by (auto simp: filter_empty_conv cts_17_18_def shift_sum_def terms_simps dest!: leave_only_ex)

lemma not_leave_only_19_20: "filter leave_only (cts_19_20 n m s) = []"
  by (auto simp: filter_empty_conv cts_19_20_def shift_sum_def terms_simps dest!: leave_only_ex)

lemma not_leave_only_21: "filter leave_only (cts_21 n m s) = []"
  by (auto simp: filter_empty_conv cts_21_def terms_simps dest!: leave_only_ex)

lemma not_leave_only_22: "filter leave_only (cts_22 n m s t) = []"
  by (auto simp: filter_empty_conv cts_22_def terms_simps dest!: leave_only_all)

lemma not_leave_only_23: "filter leave_only (cts_23 n m s t) = []"
  by (auto simp: filter_empty_conv cts_23_def terms_simps dest!: leave_only_all)

lemma not_leave_only_24: "filter leave_only (cts_24 n m s t) = []"
  by (auto simp: filter_empty_conv cts_24_def terms_simps dest!: leave_only_all)

lemma not_leave_only_quality:
  "filter leave_only (quality_cts k g target nm n m t competency) = []"
  by (auto simp: filter_empty_conv quality_cts_def terms_simps dest!: leave_only_all)

lemma leave_only_15_16: "filter leave_only (cts_15_16 n m) = cts_15_16 n m"
  by (auto simp: filter_id_conv cts_15_16_def leave_only_iff leave_window_eq window_sum_def)

lemmas not_leave_only =
  not_leave_only_requirement not_leave_only_13 not_leave_only_14 not_leave_only_17_18
  not_leave_only_19_20 not_leave_only_21 not_leave_only_22 not_leave_only_23
  not_leave_only_24 not_leave_only_quality

lemma filter_leave_only_all:
  "filter leave_only (all_constraints n m s t competency) = cts_15_16 n m"
  unfolding all_constraints_def filter_append not_leave_only leave_only_15_16
  by simp


lemma cts_15_16_eq:
  "cts_15_16 n m =
   concat (map (\<lambda>i. concat (map (\<lambda>j.
     [Constraint (''Equation_15_Max_2_Vacations_7_Days_'' @ str i @ ''_'' @ str j)
        (window_sum i j) LE (of_num 2),
      Constraint (''Equation_16_Min_1_Vacation_7_Days_'' @ str i @ ''_'' @ str j)
        (window_sum i j) GE (of_num 1)])
     (list_range (m - 6)))) (list_range n))"
  by (simp add: cts_15_16_def leave_window_eq)

lemma in_concat_map2I:
  "a \<in> set as \<Longrightarrow> b \<in> set bs \<Longrightarrow> x \<in> set (f a b) \<Longrightarrow>
   x \<in> set (concat (map (\<lambda>a. concat (map (f a) bs)) as))"
  by auto

lemma cts_15_16_mem:
  assumes "1 \<le> i" "i \<le> n" "1 \<le> j" "j \<le> m - 6"
  shows "(\<exists>ct \<in> set (cts_15_16 n m). lhs ct = window_sum i j \<and> csense ct = LE \<and> rhs ct = of_num 2) \<and>
         (\<exists>ct \<in> set (cts_15_16 n m). lhs ct = window_sum i j \<and> csense ct = GE \<and> rhs ct = of_num 1)"
proof -
  let ?a = "Constraint (''Equation_15_Max_2_Vacations_7_Days_'' @ str i @ ''_'' @ str j)
        (window_sum i j) LE (of_num 2)"
  let ?b = "Constraint (''Equation_16_Min_1_Vacation_7_Days_'' @ str i @ ''_'' @ str j)
        (window_sum i j) GE (of_num 1)"
  have "?a \<in> set (cts_15_16 n m)"
    unfolding cts_15_16_eq
    by (rule in_concat_map2I [where a = i and b = j]) (use assms in simp_all)
  moreover have "?b \<in> set (cts_15_16 n m)"
    unfolding cts_15_16_eq
    by (rule in_concat_map2I [where a = i and b = j]) (use assms in simp_all)
  ultimately show ?thesis
    by (intro conjI bexI [of _ ?a] bexI [of _ ?b]) simp_all
qed

text \<open>
  Claim C6. For every person \<open>i\<close> in \<open>[1, n]\<close> and every start day \<open>j\<close> in \<open>[1, m - 6]\<close> the
  built model contains the two inequalities on the leave of the seven days \<open>j .. j + 6\<close>:
  their sum is at most 2, and at least 1. The constraints of the model whose left-hand
  side is made of leave variables alone are exactly these two per window, in order, so no
  window starts after \<open>m - 6\<close>.
\<close>

theorem rolling_leave_windows:
  assumes "valid_dims n m s t" "total_competency n competency"
  shows "\<exists>M. build n m s t competency = Inr M \<and>
           (\<forall>i \<in> {1..n}. \<forall>j \<in> {1..m - 6}.
              (\<exists>ct \<in> set (constraints M).
                 lhs ct = window_sum i j \<and> csense ct = LE \<and> rhs ct = of_num 2) \<and>
              (\<exists>ct \<in> set (constraints M).
                 lhs ct = window_sum i j \<and> csense ct = GE \<and> rhs ct = of_num 1)) \<and>
           filter leave_only (constraints M) =
             concat (map (\<lambda>i. concat (map (\<lambda>j.
               [Constraint (''Equation_15_Max_2_Vacations_7_Days_'' @ str i @ ''_'' @ str j)
                  (window_sum i j) LE (of_num 2),
                Constraint (''Equation_16_Min_1_Vacation_7_Days_'' @ str i @ ''_'' @ str j)
                  (window_sum i j) GE (of_num 1)])
               (list_range (m - 6)))) (list_range n))"
proof -
  from build_constraints [OF assms] obtain M where
    M: "build n m s t competency = Inr M" "constraints M = all_constraints n m s t competency"
    by blast
  have sub: "set (cts_15_16 n m) \<subseteq> set (constraints M)"
    unfolding M(2) all_constraints_def set_append by blast
  have "(\<exists>ct \<in> set (constraints M). lhs ct = window_sum i j \<and> csense ct = LE \<and> rhs ct = of_num 2) \<and>
        (\<exists>ct \<in> set (constraints M). lhs ct = window_sum i j \<and> csense ct = GE \<and> rhs ct = of_num 1)"
    if "i \<in> {1..n}" "j \<in> {1..m - 6}" for i j
    using cts_15_16_mem [of i n j m] that sub by (meson atLeastAtMost_iff subsetD)
  moreover have "filter leave_only (constraints M) = cts_15_16 n m"
    by (simp add: M(2) filter_leave_only_all)
  ultimately show ?thesis
    using M(1) cts_15_16_eq [of n m] by auto
qed

theorem rolling_leave_windows_witness:
  "valid_dims 1 7 7 2 \<and> total_competency 1 unit_competency \<and>
   (\<exists>M. build 1 7 7 2 unit_competency = Inr M \<and>
      (\<forall>i \<in> {1..1}. \<forall>j \<in> {1..7 - 6}.
         (\<exists>ct \<in> set (constraints M).
            lhs ct = window_sum i j \<and> csense ct = LE \<and> rhs ct = of_num 2) \<and>
         (\<exists>ct \<in> set (constraints M).
            lhs ct = window_sum i j \<and> csense ct = GE \<and> rhs ct = of_num 1)) \<and>
      filter leave_only (constraints M) =
        concat (map (\<lambda>i. concat (map (\<lambda>j.
          [Constraint (''Equation_15_Max_2_Vacations_7_Days_'' @ str i @ ''_'' @ str j)
             (window_sum i j) LE (of_num 2),
           Constraint (''Equation_16_Min_1_Vacation_7_Days_'' @ str i @ ''_'' @ str j)
             (window_sum i j) GE (of_num 1)])
          (list_range (7 - 6)))) (list_range 1)))"
  using rolling_leave_windows [OF valid_dims_small total_unit_competency]
    valid_dims_small total_unit_competency
  by blast

subsection \<open>A missing competency score\<close>

lemma mapE_Inl: "x \<in> set xs \<Longrightarrow> \<exists>e. f x = Inl e \<Longrightarrow> \<exists>e. mapE f xs = Inl e"
  by (induction xs) (auto simp: bindE_def split: sum.splits)

lemma sum_over_Inl: "x \<in> set xs \<Longrightarrow> \<exists>e. f x = Inl e \<Longrightarrow> \<exists>e. sum_over xs f = Inl e"
  unfolding sum_over_def using mapE_Inl [of x xs f] by auto

lemma forE_Inl_first:
  assumes "xs \<noteq> []" "\<And>x. x \<in> set xs \<Longrightarrow> \<exists>e. body x st = Inl e"
  shows "\<exists>e. forE xs body st = Inl e"
proof (cases xs)
  case Nil
  with assms(1) show ?thesis by simp
next
  case (Cons a list)
  with assms(2) [of a] obtain e where "body a st = Inl e" by auto
  with Cons show ?thesis by simp
qed

lemma list_range_nonempty: "1 \<le> n \<Longrightarrow> list_range n \<noteq> []"
  by (simp add: list_range_def py_range_def)

lemma quality_term_fails:
  "\<not> has_score competency i k \<Longrightarrow>
   \<exists>e. bindE (getitem d key) (\<lambda>x. bindE (person_competency competency i k) (\<lambda>c. mul_score x c)) = Inl e"
  by (auto simp: has_score_def person_competency_def mul_score_def bindE_def
      split: option.splits sum.splits)

lemma add_ct_Inl: "\<exists>e. l = Inl e \<Longrightarrow> \<exists>e. add_ct nm l sn r M = Inl e"
  by (auto simp: add_ct_def)

lemma plusE_Inl: "\<exists>e. a = Inl e \<Longrightarrow> \<exists>e. plusE a b = Inl e"
  by (auto simp: plusE_def)

lemma minusE_Inl: "\<exists>e. a = Inl e \<Longrightarrow> \<exists>e. minusE a b = Inl e"
  by (auto simp: minusE_def)

lemma quality_goal_fails:
  assumes "1 \<le> m" "1 \<le> t" "1 \<le> i" "i \<le> n" "\<not> has_score competency i k"
  shows "\<exists>e. quality_goal k dneg dpos target nm n m s t competency M = Inl e"
  unfolding quality_goal_def
proof (intro forE_Inl_first add_ct_Inl minusE_Inl plusE_Inl)
  show "list_range m \<noteq> []" "list_range t \<noteq> []"
    using assms by (simp_all add: list_range_nonempty)
next
  fix j l
  show "\<exists>e. sum_over (list_range n) (\<lambda>i.
          bindE (getitem (X n m s t) (i, j, k, l)) (\<lambda>x.
          bindE (person_competency competency i k) (\<lambda>c. mul_score x c))) = Inl e"
    using assms by (intro sum_over_Inl [of i] quality_term_fails) simp_all
qed

lemma forE_cells_Inl:
  "c \<in> set cs \<Longrightarrow> (\<And>M. \<exists>e. c M = Inl e) \<Longrightarrow> \<exists>e. forE cs (\<lambda>cell M. cell M) M0 = Inl e"
proof (induction cs arbitrary: M0)
  case Nil
  then show ?case by simp
next
  case (Cons a cs)
  show ?case
  proof (cases "a M0")
    case (Inl e)
    then show ?thesis by simp
  next
    case (Inr M1)
    show ?thesis
    proof (cases "c = a")
      case True
      with Cons.prems(2) [of M0] Inr show ?thesis by simp
    next
      case False
      with Cons.prems(1) have "c \<in> set cs" by simp
      from Cons.IH [OF this Cons.prems(2), of M1] Inr show ?thesis by simp
    qed
  qed
qed

lemma some_quality_cell_fails:
  assumes "1 \<le> m" "1 \<le> t" "1 \<le> i" "i \<le> n" "1 \<le> k" "k \<le> 7" "\<not> has_score competency i k"
  shows "\<exists>c \<in> set (cells n m s t competency). \<forall>M. \<exists>e. c M = Inl e"
proof -
  from assms(5,6) have "k = 1 \<or> k = 2 \<or> k = 3 \<or> k = 4 \<or> k = 5 \<or> k = 6 \<or> k = 7"
    by arith
  then show ?thesis
  proof (elim disjE)
    assume "k = 1"
    then have "\<forall>M. \<exists>e. Equation_25 n m s t competency M = Inl e"
      unfolding Equation_25_def using quality_goal_fails [OF assms(1-4)] assms(7) by blast
    then show ?thesis by (intro bexI [of _ "Equation_25 n m s t competency"]) (simp_all add: cells_def)
  next
    assume "k = 2"
    then have "\<forall>M. \<exists>e. Equation_26 n m s t competency M = Inl e"
      unfolding Equation_26_def using quality_goal_fails [OF assms(1-4)] assms(7) by blast
    then show ?thesis by (intro bexI [of _ "Equation_26 n m s t competency"]) (simp_all add: cells_def)
  next
    assume "k = 3"
    then have "\<forall>M. \<exists>e. Equation_27 n m s t competency M = Inl e"
      unfolding Equation_27_def using quality_goal_fails [OF assms(1-4)] assms(7) by blast
    then show ?thesis by (intro bexI [of _ "Equation_27 n m s t competency"]) (simp_all add: cells_def)
  next
    assume "k = 4"
    then have "\<forall>M. \<exists>e. Equation_28 n m s t competency M = Inl e"
      unfolding Equation_28_def using quality_goal_fails [OF assms(1-4)] assms(7) by blast
    then show ?thesis by (intro bexI [of _ "Equation_28 n m s t competency"]) (simp_all add: cells_def)
  next
    assume "k = 5"
    then have "\<forall>M. \<exists>e. Equation_29 n m s t competency M = Inl e"
      unfolding Equation_29_def using quality_goal_fails [OF assms(1-4)] assms(7) by blast
    then show ?thesis by (intro bexI [of _ "Equation_29 n m s t competency"]) (simp_all add: cells_def)
  next
    assume "k = 6"
    then have "\<forall>M. \<exists>e. Equation_30 n m s t competency M = Inl e"
      unfolding Equation_30_def using quality_goal_fails [OF assms(1-4)] assms(7) by blast
    then show ?thesis by (intro bexI [of _ "Equation_30 n m s t competency"]) (simp_all add: cells_def)
  next
    assume "k = 7"
    then have "\<forall>M. \<exists>e. Equation_31 n m s t competency M = Inl e"
      unfolding Equation_31_def using quality_goal_fails [OF assms(1-4)] assms(7) by blast
    then show ?thesis by (intro bexI [of _ "Equation_31 n m s t competency"]) (simp_all add: cells_def)
  qed
qed

text \<open>
  Claim C9. When the competency table has no score for a person \<open>i\<close> in \<open>[1, n]\<close> and a
  section \<open>k\<close> in \<open>[1, 7]\<close>, and there is at least one day and one shift so that a goal
  constraint refers to the pair, building the model raises: the run of the notebook ends
  with that exception whatever the solver is, so the solver is never called.
\<close>

theorem missing_score_fails_at_construction:
  assumes "1 \<le> m" "1 \<le> t" "1 \<le> i" "i \<le> n" "1 \<le> k" "k \<le> 7" "\<not> has_score competency i k"
  shows "\<exists>e. build n m s t competency = Inl e \<and>
           (\<forall>solve. run_notebook solve n m s t competency = Inl e)"
proof -
  from some_quality_cell_fails [OF assms] obtain c where
    "c \<in> set (cells n m s t competency)" "\<And>M. \<exists>e. c M = Inl e"
    by blast
  then obtain e where "build n m s t competency = Inl e"
    unfolding build_def using forE_cells_Inl [of c] by blast
  then show ?thesis
    by (simp add: run_notebook_def)
qed

theorem missing_score_fails_at_construction_witness:
  "(1::nat) \<le> 1 \<and> (1::nat) \<le> 2 \<and> (1::nat) \<le> 1 \<and> (1::nat) \<le> 7 \<and> \<not> has_score (\<lambda>i. None) 1 1 \<and>
   (\<exists>e. build 1 1 7 2 (\<lambda>i. None) = Inl e \<and>
      (\<forall>solve. run_notebook solve 1 1 7 2 (\<lambda>i. None) = Inl e))"
proof -
  have h: "\<not> has_score (\<lambda>i. None) 1 1"
    by (simp add: has_score_def)
  have "\<exists>e. build 1 1 7 2 (\<lambda>i. None) = Inl e \<and>
      (\<forall>solve. run_notebook solve 1 1 7 2 (\<lambda>i. None) = Inl e)"
    by (rule missing_score_fails_at_construction [of 1 2 1 1 1, OF _ _ _ _ _ _ h]) simp_all
  with h show ?thesis by simp
qed

subsection \<open>Decimal strings\<close>

lemma digit_cases: "d < 10 \<Longrightarrow> d = 0 \<or> d = 1 \<or> d = 2 \<or> d = 3 \<or> d = 4 \<or> d = 5 \<or> d = 6 \<or> d = 7 \<or> d = 8 \<or> d = (9::nat)"
  by arith

lemma digit_val_digit_char: "d < 10 \<Longrightarrow> digit_val (digit_char d) = Some d"
  by (drule digit_cases) (auto simp: digit_val_def digit_char_def upt_rec)

lemma digit_char_not_underscore: "d < 10 \<Longrightarrow> digit_char d \<noteq> CHR ''_''"
  by (drule digit_cases) (auto simp: digit_char_def)

lemma str_no_underscore: "CHR ''_'' \<notin> set (str k)"
proof (induction k rule: str.induct)
  case (1 k)
  show ?case
  proof (cases "k < 10")
    case True
    then show ?thesis
      using digit_char_not_underscore [of k] by (simp add: str.simps [of k])
  next
    case False
    with 1 digit_char_not_underscore [of "k mod 10"] show ?thesis
      by (simp add: str.simps [of k])
  qed
qed

lemma str_nonempty: "str k \<noteq> []"
  by (simp add: str.simps [of k])

lemma fold_parse_str: "fold parse_step (str k) (Some 0) = Some k"
proof (induction k rule: str.induct)
  case (1 k)
  show ?case
  proof (cases "k < 10")
    case True
    then show ?thesis
      by (simp add: str.simps [of k] parse_step_def digit_val_digit_char)
  next
    case False
    with 1 show ?thesis
      by (simp add: str.simps [of k] parse_step_def digit_val_digit_char)
  qed
qed

lemma parse_nat_str: "parse_nat (str k) = Some k"
  using fold_parse_str [of k] by (simp add: parse_nat_def str_nonempty)

lemma parse_keys_str: "parse_keys (map str ks) = Some ks"
  by (induction ks) (simp_all add: parse_nat_str)

subsection \<open>Cutting a name at the underscores\<close>

lemma split_on_whole: "c \<notin> set w \<Longrightarrow> split_on c w = [w]"
  by (induction w) auto

lemma split_on_first: "c \<notin> set w \<Longrightarrow> split_on c (w @ c # rest) = w # split_on c rest"
  by (induction w) auto

lemma split_on_keys:
  "CHR ''_'' \<notin> set w \<Longrightarrow>
   split_on CHR ''_'' (w @ concat (map (\<lambda>k. ''_'' @ str k) ks)) = w # map str ks"
proof (induction ks arbitrary: w)
  case Nil
  then show ?case by (simp add: split_on_whole)
next
  case (Cons k ks)
  have "split_on CHR ''_'' (w @ CHR ''_'' # (str k @ concat (map (\<lambda>k. ''_'' @ str k) ks))) =
        w # split_on CHR ''_'' (str k @ concat (map (\<lambda>k. ''_'' @ str k) ks))"
    using Cons.prems by (rule split_on_first)
  also have "split_on CHR ''_'' (str k @ concat (map (\<lambda>k. ''_'' @ str k) ks)) = str k # map str ks"
    by (rule Cons.IH) (rule str_no_underscore)
  finally show ?case by simp
qed

lemma decode_var_name: "decode_name (var_name fam key) = Some (fam, key)"
proof (cases fam)
  case FX
  have "split_on CHR ''_'' (''X'' @ concat (map (\<lambda>k. ''_'' @ str k) key)) = ''X'' # map str key"
    by (rule split_on_keys) simp
  with FX show ?thesis
    by (simp add: decode_name_def var_name_def with_family_def parse_keys_str)
next
  case FH
  have "split_on CHR ''_'' (''h'' @ concat (map (\<lambda>k. ''_'' @ str k) key)) = ''h'' # map str key"
    by (rule split_on_keys) simp
  with FH show ?thesis
    by (simp add: decode_name_def var_name_def with_family_def parse_keys_str)
next
  case (FD sg g)
  let ?rest = "str g @ concat (map (\<lambda>k. ''_'' @ str k) key)"
  have r: "split_on CHR ''_'' ?rest = str g # map str key"
    by (rule split_on_keys) (rule str_no_underscore)
  from r FD show ?thesis
    by (cases sg)
      (simp_all add: decode_name_def var_name_def with_family_def parse_keys_str parse_nat_str)
qed

subsection \<open>The variables of the model\<close>

lemma length_concat_map_const:
  "(\<And>x. length (f x) = c) \<Longrightarrow> length (concat (map f xs)) = length xs * c"
  by (induction xs) simp_all

lemma distinct_concat_mapI:
  "distinct xs \<Longrightarrow> (\<And>x. x \<in> set xs \<Longrightarrow> distinct (f x)) \<Longrightarrow>
   (\<And>x y. x \<in> set xs \<Longrightarrow> y \<in> set xs \<Longrightarrow> x \<noteq> y \<Longrightarrow> set (f x) \<inter> set (f y) = {}) \<Longrightarrow>
   distinct (concat (map f xs))"
  by (induction xs) auto

lemma length_list_range [simp]: "length (list_range n) = n"
  by (simp add: list_range_def py_range_def)

lemma distinct_list_range [simp]: "distinct (list_range n)"
  by (simp add: list_range_def py_range_def)

lemma map_snd_X: "map snd (X n m s t) = X_vars n m s t"
  by (simp add: X_def X_vars_def binary_var_def the_var_def var_name_def map_concat comp_def)

lemma map_snd_h: "map snd (h n m) = h_vars n m"
  by (simp add: h_def h_vars_def binary_var_def the_var_def var_name_def map_concat comp_def)

lemma length_X_vars: "length (X_vars n m s t) = n * m * s * t"
  unfolding X_vars_def
  by (simp add: length_concat_map_const [where c = "m * s * t"]
      length_concat_map_const [where c = "s * t"] length_concat_map_const [where c = t])

lemma length_h_vars: "length (h_vars n m) = n * m"
  unfolding h_vars_def by (simp add: length_concat_map_const [where c = m])

lemma distinct_X_vars: "distinct (X_vars n m s t)"
  unfolding X_vars_def
  by (intro distinct_concat_mapI) (auto simp: distinct_map inj_on_def the_var_def)

lemma distinct_h_vars: "distinct (h_vars n m)"
  unfolding h_vars_def
  by (intro distinct_concat_mapI) (auto simp: distinct_map inj_on_def the_var_def)

lemma matrix_is_the_var:
  "v \<in> snd ` set (continuous_var_matrix (FD sg g) ks1 ks2 nm) \<Longrightarrow> family_name (FD sg g) = nm \<Longrightarrow>
   (\<exists>sg g. origin v = FD sg g) \<and> v = the_var (origin v) (index v)"
  by (auto simp: continuous_var_matrix_def the_var_def var_name_def)

lemma list_is_the_var:
  "v \<in> set (continuous_var_list (FD sg g) ks nm) \<Longrightarrow> family_name (FD sg g) = nm \<Longrightarrow>
   (\<exists>sg g. origin v = FD sg g) \<and> v = the_var (origin v) (index v)"
  by (auto simp: continuous_var_list_def the_var_def var_name_def)

lemmas dev_defs =
  d_neg_1_def d_pos_1_def d_neg_2_def d_pos_2_def d_neg_3_def d_pos_3_def
  d_neg_4_def d_pos_4_def d_neg_5_def d_pos_5_def d_neg_6_def d_pos_6_def
  d_neg_7_def d_pos_7_def d_neg_8_def d_pos_8_def d_neg_9_def d_pos_9_def
  d_neg_10_def d_pos_10_def

lemma deviation_is_the_var:
  assumes "v \<in> set (deviation_variables n m t)"
  shows "(\<exists>sg g. origin v = FD sg g) \<and> v = the_var (origin v) (index v)"
  using assms unfolding deviation_variables_def dev_defs set_append Un_iff set_map
  apply (elim disjE)
  apply ((erule matrix_is_the_var | erule list_is_the_var), simp add: str_digit str_10 digit_char_def)+
  done


lemma X_vars_are_the_var: "v \<in> set (X_vars n m s t) \<Longrightarrow> origin v = FX \<and> v = the_var FX (index v)"
  by (auto simp: X_vars_def)

lemma h_vars_are_the_var: "v \<in> set (h_vars n m) \<Longrightarrow> origin v = FH \<and> v = the_var FH (index v)"
  by (auto simp: h_vars_def)

lemma variables_create:
  "variables (create_variables n m s t Model) = X_vars n m s t @ h_vars n m @ deviation_variables n m t"
  by (simp add: create_variables_def register_def Model_def map_snd_X map_snd_h)

lemma created_is_the_var:
  "v \<in> set (variables (create_variables n m s t Model)) \<Longrightarrow> v = the_var (origin v) (index v)"
  unfolding variables_create
  using X_vars_are_the_var [of v n m s t] h_vars_are_the_var [of v n m] deviation_is_the_var [of v n m t]
  by auto

lemma filter_X_created:
  "filter (\<lambda>v. origin v = FX) (variables (create_variables n m s t Model)) = X_vars n m s t"
proof -
  have "filter (\<lambda>v. origin v = FX) (X_vars n m s t) = X_vars n m s t"
    using X_vars_are_the_var by (simp add: filter_id_conv)
  moreover have "filter (\<lambda>v. origin v = FX) (h_vars n m) = []"
    using h_vars_are_the_var by (fastforce simp: filter_empty_conv)
  moreover have "filter (\<lambda>v. origin v = FX) (deviation_variables n m t) = []"
    using deviation_is_the_var by (fastforce simp: filter_empty_conv)
  ultimately show ?thesis
    by (simp add: variables_create)
qed

lemma filter_h_created:
  "filter (\<lambda>v. origin v = FH) (variables (create_variables n m s t Model)) = h_vars n m"
proof -
  have "filter (\<lambda>v. origin v = FH) (X_vars n m s t) = []"
    using X_vars_are_the_var by (fastforce simp: filter_empty_conv)
  moreover have "filter (\<lambda>v. origin v = FH) (h_vars n m) = h_vars n m"
    using h_vars_are_the_var by (simp add: filter_id_conv)
  moreover have "filter (\<lambda>v. origin v = FH) (deviation_variables n m t) = []"
    using deviation_is_the_var by (fastforce simp: filter_empty_conv)
  ultimately show ?thesis
    by (simp add: variables_create)
qed

lemma build_variables:
  "valid_dims n m s t \<Longrightarrow> total_competency n competency \<Longrightarrow>
   \<exists>M. build n m s t competency = Inr M \<and> variables M = variables (create_variables n m s t Model)"
  using build_constraints [of n m s t competency]
  by (auto simp: variables_create map_snd_X map_snd_h)

text \<open>
  Claim C7. The built model holds exactly the assignment variables \<open>X_vars\<close>, one at each
  in-range tuple \<open>(i, j, k, l)\<close> and \<open>n * m * s * t\<close> in number, and exactly the leave
  variables \<open>h_vars\<close>, one at each in-range \<open>(i, j)\<close> and \<open>n * m\<close> in number; all are binary.
\<close>

theorem variable_counts:
  assumes "valid_dims n m s t" "total_competency n competency"
  shows "\<exists>M. build n m s t competency = Inr M \<and>
           filter (\<lambda>v. origin v = FX) (variables M) = X_vars n m s t \<and>
           length (filter (\<lambda>v. origin v = FX) (variables M)) = n * m * s * t \<and>
           distinct (filter (\<lambda>v. origin v = FX) (variables M)) \<and>
           filter (\<lambda>v. origin v = FH) (variables M) = h_vars n m \<and>
           length (filter (\<lambda>v. origin v = FH) (variables M)) = n * m \<and>
           distinct (filter (\<lambda>v. origin v = FH) (variables M)) \<and>
           list_all (\<lambda>v. vartype v = Binary) (X_vars n m s t @ h_vars n m)"
proof -
  have "list_all (\<lambda>v. vartype v = Binary) (X_vars n m s t @ h_vars n m)"
    by (auto simp: list_all_iff X_vars_def h_vars_def the_var_def)
  with build_variables [OF assms] show ?thesis
    by (auto simp: filter_X_created filter_h_created length_X_vars length_h_vars
        distinct_X_vars distinct_h_vars)
qed

theorem variable_counts_witness:
  "valid_dims 1 7 7 2 \<and> total_competency 1 unit_competency \<and>
   (\<exists>M. build 1 7 7 2 unit_competency = Inr M \<and>
      filter (\<lambda>v. origin v = FX) (variables M) = X_vars 1 7 7 2 \<and>
      length (filter (\<lambda>v. origin v = FX) (variables M)) = 1 * 7 * 7 * 2 \<and>
      distinct (filter (\<lambda>v. origin v = FX) (variables M)) \<and>
      filter (\<lambda>v. origin v = FH) (variables M) = h_vars 1 7 \<and>
      length (filter (\<lambda>v. origin v = FH) (variables M)) = 1 * 7 \<and>
      distinct (filter (\<lambda>v. origin v = FH) (variables M)) \<and>
      list_all (\<lambda>v. vartype v = Binary) (X_vars 1 7 7 2 @ h_vars 1 7))"
  using variable_counts [OF valid_dims_small total_unit_competency]
    valid_dims_small total_unit_competency
  by blast

lemma in_concat_mapI: "a \<in> set as \<Longrightarrow> x \<in> set (f a) \<Longrightarrow> x \<in> set (concat (map f as))"
  by auto

lemma X_vars_mem:
  assumes "1 \<le> i" "i \<le> n" "1 \<le> j" "j \<le> m" "1 \<le> k" "k \<le> s" "1 \<le> l" "l \<le> t"
  shows "the_var FX [i, j, k, l] \<in> set (X_vars n m s t)"
proof -
  have "the_var FX [i, j, k, l] \<in> set (map (\<lambda>l. the_var FX [i, j, k, l]) (list_range t))"
    using assms by (auto intro!: image_eqI [of _ _ l])
  then show ?thesis
    unfolding X_vars_def using assms
    by (intro in_concat_mapI [where a = i] in_concat_mapI [where a = j] in_concat_mapI [where a = k])
      simp_all
qed

lemma name_the_var [simp]: "name (the_var fam key) = var_name fam key"
  by (simp add: the_var_def)

text \<open>
  Claim C8. Over the variables the notebook creates, of every family, the name decodes
  to the family and the index tuple of its variable, and two variables with the same name
  are the same variable.
\<close>

theorem variable_names_round_trip:
  "(\<forall>v \<in> set (variables (create_variables n m s t Model)).
      decode_name (name v) = Some (origin v, index v)) \<and>
   (\<forall>v \<in> set (variables (create_variables n m s t Model)).
    \<forall>w \<in> set (variables (create_variables n m s t Model)).
      name v = name w \<longrightarrow> v = w)"
proof -
  let ?V = "set (variables (create_variables n m s t Model))"
  have dec: "decode_name (name v) = Some (origin v, index v)" if "v \<in> ?V" for v
  proof -
    from that have "v = the_var (origin v) (index v)"
      by (rule created_is_the_var)
    then have "name v = var_name (origin v) (index v)"
      by (metis name_the_var)
    then show ?thesis
      by (simp add: decode_var_name)
  qed
  have "v = w" if "v \<in> ?V" "w \<in> ?V" "name v = name w" for v w
  proof -
    from that dec [of v] dec [of w] have "origin v = origin w" "index v = index w"
      by simp_all
    with created_is_the_var [OF that(1)] created_is_the_var [OF that(2)] show ?thesis
      by metis
  qed
  with dec show ?thesis by blast
qed

theorem variable_names_round_trip_witness:
  "the_var FX [1, 2, 3, 1] \<in> set (variables (create_variables 1 2 7 2 Model)) \<and>
   name (the_var FX [1, 2, 3, 1]) = ''X_1_2_3_1'' \<and>
   decode_name ''X_1_2_3_1'' = Some (FX, [1, 2, 3, 1])"
proof -
  have mem: "the_var FX [1, 2, 3, 1] \<in> set (variables (create_variables 1 2 7 2 Model))"
    by (simp add: variables_create X_vars_mem)
  have nm: "name (the_var FX [1, 2, 3, 1]) = ''X_1_2_3_1''"
    by (simp add: var_name_def str_digit digit_char_def)
  from variable_names_round_trip [of 1 2 7 2] mem
  have "decode_name (name (the_var FX [1, 2, 3, 1])) =
          Some (origin (the_var FX [1, 2, 3, 1]), index (the_var FX [1, 2, 3, 1]))"
    by blast
  with mem nm show ?thesis by simp
qed

subsection \<open>Occurrences of the deviations of goals 1 and 2\<close>

lemma the_var_eq [simp]: "the_var f k = the_var f' k' \<longleftrightarrow> f = f' \<and> k = k'"
  by (auto simp: the_var_def)

lemma vars_of_Constraint:
  "vars_of (Constraint nm l sn r) = snd ` set (terms l) \<union> snd ` set (terms r)"
  by (simp add: vars_of_def)

lemma count_list_distinct: "distinct vs \<Longrightarrow> count_list vs v = (if v \<in> set vs then 1 else 0)"
  by (induction vs) auto

lemma coeff_unit_terms: "coeff (LinExpr (map (\<lambda>v. (1, v)) vs) c) v = of_nat (count_list vs v)"
  by (induction vs) (simp_all add: coeff_def)

lemma distinct_pair_segment:
  "distinct (concat (map (\<lambda>i. concat (map (\<lambda>j.
     [the_var (FD Neg g) [i, j], the_var (FD Pos g) [i, j]]) (list_range m))) (list_range n)))"
  by (intro distinct_concat_mapI) auto

lemma distinct_pos_segment:
  "distinct (concat (map (\<lambda>j. map (\<lambda>l. the_var (FD Pos g) [j, l]) (list_range t)) (list_range m)))"
  by (intro distinct_concat_mapI) (auto simp: distinct_map inj_on_def)

lemma distinct_goal_3_segment:
  "distinct (concat (map (\<lambda>i. [the_var (FD Neg 3) [i], the_var (FD Pos 3) [i]]) (list_range n)))"
  by (intro distinct_concat_mapI) auto

lemma distinct_objective_vars: "distinct (objective_vars n m t)"
  unfolding objective_vars_def
  by (simp add: distinct_pair_segment distinct_pos_segment distinct_goal_3_segment) auto

lemma pair_in_objective_vars:
  assumes "g = 1 \<or> g = 2" "1 \<le> i" "i \<le> n" "1 \<le> j" "j \<le> m"
  shows "the_var (FD sg g) [i, j] \<in> set (objective_vars n m t)"
proof -
  have "the_var (FD sg g) [i, j] \<in> set (concat (map (\<lambda>i. concat (map (\<lambda>j.
     [the_var (FD Neg g) [i, j], the_var (FD Pos g) [i, j]]) (list_range m))) (list_range n)))"
  proof (rule in_concat_mapI [where a = i])
    show "i \<in> set (list_range n)"
      using assms by simp
    show "the_var (FD sg g) [i, j] \<in> set (concat (map (\<lambda>j.
       [the_var (FD Neg g) [i, j], the_var (FD Pos g) [i, j]]) (list_range m)))"
      using assms sign.exhaust [of sg] by (intro in_concat_mapI [where a = j]) auto
  qed
  with assms(1) show ?thesis
    unfolding objective_vars_def by auto
qed


lemma dev_pair_created:
  assumes "g = 1 \<or> g = 2" "1 \<le> i" "i \<le> n" "1 \<le> j" "j \<le> m"
  shows "the_var (FD sg g) [i, j] \<in> set (deviation_variables n m t)"
proof -
  have *: "the_var (FD sg g) [i, j] \<in> snd ` set (continuous_var_matrix (FD sg g)
      (py_range 1 (n + 1)) (py_range 1 (m + 1)) (family_name (FD sg g)))"
    using assms unfolding continuous_var_matrix_def
    by (force simp: the_var_def var_name_def)
  from assms(1) show ?thesis
  proof
    assume "g = 1"
    with * show ?thesis
      by (cases sg) (simp_all add: deviation_variables_def d_neg_1_def d_pos_1_def str_digit digit_char_def)
  next
    assume "g = 2"
    with * show ?thesis
      by (cases sg) (simp_all add: deviation_variables_def d_neg_2_def d_pos_2_def str_digit digit_char_def)
  qed
qed

lemma late_dev_not_in_constraints:
  assumes "g = 1 \<or> g = 2" "m < j + 2" "ct \<in> set (all_constraints n m s t competency)"
  shows "the_var (FD sg g) [i, j] \<notin> vars_of ct"
  using assms(3) unfolding all_constraints_def set_append Un_iff
  by (elim disjE)
    (use assms(1,2) in \<open>auto simp: requirement_cts_def cts_13_def cts_14_def cts_15_16_def
      cts_17_18_def cts_19_20_def cts_21_def cts_22_def cts_23_def cts_24_def quality_cts_def
      vars_of_Constraint terms_simps X_sum_terms X_terms_def leave_window_eq window_sum_def
      shift_sum_def\<close>)


text \<open>
  Claim C10. The deviations of goals 1 and 2 exist for every person and every day in
  \<open>[1, m]\<close> and each has coefficient 1 in the objective of the built model; those of the
  last two days (\<open>j > m - 2\<close>) occur in no constraint of the model.
\<close>

theorem late_deviations_unconstrained:
  assumes "valid_dims n m s t" "total_competency n competency"
    and "g = 1 \<or> g = 2" "1 \<le> i" "i \<le> n" "1 \<le> j" "j \<le> m"
  shows "\<exists>M e. build n m s t competency = Inr M \<and> objective M = Some e \<and>
           the_var (FD sg g) [i, j] \<in> set (variables M) \<and>
           coeff e (the_var (FD sg g) [i, j]) = 1 \<and>
           (m - 2 < j \<longrightarrow> (\<forall>ct \<in> set (constraints M). the_var (FD sg g) [i, j] \<notin> vars_of ct))"
proof -
  let ?v = "the_var (FD sg g) [i, j]"
  from build_constraints [OF assms(1,2)] obtain M where
    M: "build n m s t competency = Inr M" "constraints M = all_constraints n m s t competency"
      "objective M = Some (objective_sum n m t)"
      "variables M = map snd (X n m s t) @ map snd (h n m) @ deviation_variables n m t"
    by blast
  have "?v \<in> set (variables M)"
    using dev_pair_created [OF assms(3-7)] by (simp add: M(4))
  moreover have "coeff (objective_sum n m t) ?v = 1"
    using pair_in_objective_vars [OF assms(3-7), of sg t]
    by (simp add: objective_sum_eq coeff_unit_terms count_list_distinct distinct_objective_vars)
  moreover have "?v \<notin> vars_of ct" if "m - 2 < j" "ct \<in> set (constraints M)" for ct
  proof -
    from that(1) have "m < j + 2" by arith
    from late_dev_not_in_constraints [OF assms(3) this] that(2) show ?thesis
      by (simp add: M(2))
  qed
  ultimately show ?thesis
    using M(1,3) by blast
qed

theorem late_deviations_unconstrained_witness:
  "valid_dims 1 7 7 2 \<and> total_competency 1 unit_competency \<and>
   (\<exists>M e. build 1 7 7 2 unit_competency = Inr M \<and> objective M = Some e \<and>
      the_var (FD Neg 1) [1, 7] \<in> set (variables M) \<and>
      coeff e (the_var (FD Neg 1) [1, 7]) = 1 \<and>
      (\<forall>ct \<in> set (constraints M). the_var (FD Neg 1) [1, 7] \<notin> vars_of ct))"
proof -
  have "\<exists>M e. build 1 7 7 2 unit_competency = Inr M \<and> objective M = Some e \<and>
      the_var (FD Neg 1) [1, 7] \<in> set (variables M) \<and>
      coeff e (the_var (FD Neg 1) [1, 7]) = 1 \<and>
      ((7::nat) - 2 < 7 \<longrightarrow> (\<forall>ct \<in> set (constraints M). the_var (FD Neg 1) [1, 7] \<notin> vars_of ct))"
    by (rule late_deviations_unconstrained [OF valid_dims_small total_unit_competency]) simp_all
  then show ?thesis
    using valid_dims_small total_unit_competency by simp
qed

subsection \<open>The requirement of section 4 and the keys of \<open>d_neg_6\<close>\<close>

lemma section_4_only_iff:
  "section_4_only (Constraint nm e sn r) \<longleftrightarrow>
     terms e \<noteq> [] \<and> list_all (\<lambda>cv. origin (snd cv) = FX \<and> index (snd cv) ! 2 = 4) (terms e)"
  by (simp add: section_4_only_def)

lemma section_4_only_ex:
  "section_4_only (Constraint nm e sn r) \<Longrightarrow>
   \<exists>cv \<in> set (terms e). origin (snd cv) = FX \<and> index (snd cv) ! 2 = 4"
  by (cases "terms e") (auto simp: section_4_only_iff)

lemma not_section_4_by_term:
  "(c, v) \<in> set (terms e) \<Longrightarrow> index v ! 2 \<noteq> 4 \<Longrightarrow> \<not> section_4_only (Constraint nm e sn r)"
  by (force simp: section_4_only_iff list_all_iff)

lemma X_sum_first:
  "1 \<le> s \<Longrightarrow> 1 \<le> t \<Longrightarrow> (1, the_var FX [i, j, 1, 1]) \<in> set (terms (X_sum s t i j))"
  unfolding X_sum_terms linexpr.sel X_terms_def
  by (rule in_concat_mapI [where a = 1]) (auto intro!: image_eqI [of _ _ 1])

lemma shift_sum_terms:
  "terms (shift_sum m s i l) =
   concat (map (\<lambda>j. map (\<lambda>k. (1, the_var FX [i, j, k, l])) (list_range s)) (list_range m))"
  by (simp add: shift_sum_def terms_simps map_concat comp_def concat_concat_singleton)

lemma shift_sum_first:
  "1 \<le> m \<Longrightarrow> 1 \<le> s \<Longrightarrow> (1, the_var FX [i, 1, 1, l]) \<in> set (terms (shift_sum m s i l))"
  unfolding shift_sum_terms
  by (rule in_concat_mapI [where a = 1]) (auto intro!: image_eqI [of _ _ 1])

lemma no_section_4_requirement:
  "k \<noteq> 4 \<Longrightarrow> filter section_4_only (requirement_cts k req nm n m t) = []"
  by (auto simp: filter_empty_conv requirement_cts_def terms_simps dest!: section_4_only_ex)

lemma no_section_4_13:
  assumes "1 \<le> s" "1 \<le> t"
  shows "filter section_4_only (cts_13 n m s t) = []"
proof -
  have "\<not> section_4_only (Constraint nm (X_sum s t i j) sn r)" for nm i j sn r
    by (rule not_section_4_by_term [OF X_sum_first [OF assms]]) simp
  then show ?thesis
    by (auto simp: filter_empty_conv cts_13_def)
qed

lemma no_section_4_14:
  assumes "1 \<le> s" "1 \<le> t"
  shows "filter section_4_only (cts_14 n m s t) = []"
proof -
  have "\<not> section_4_only (Constraint nm (X_sum s t i j) sn r)" for nm i j sn r
    by (rule not_section_4_by_term [OF X_sum_first [OF assms]]) simp
  then show ?thesis
    by (auto simp: filter_empty_conv cts_14_def)
qed

lemma no_section_4_15_16: "filter section_4_only (cts_15_16 n m) = []"
  by (auto simp: filter_empty_conv cts_15_16_def leave_window_eq window_sum_def
      dest!: section_4_only_ex)

lemma no_section_4_17_18:
  assumes "1 \<le> m" "1 \<le> s"
  shows "filter section_4_only (cts_17_18 n m s) = []"
proof -
  have "\<not> section_4_only (Constraint nm (shift_sum m s i l) sn r)" for nm i l sn r
    by (rule not_section_4_by_term [OF shift_sum_first [OF assms]]) simp
  then show ?thesis
    by (auto simp: filter_empty_conv cts_17_18_def)
qed

lemma no_section_4_19_20:
  assumes "1 \<le> m" "1 \<le> s"
  shows "filter section_4_only (cts_19_20 n m s) = []"
proof -
  have "\<not> section_4_only (Constraint nm (shift_sum m s i l) sn r)" for nm i l sn r
    by (rule not_section_4_by_term [OF shift_sum_first [OF assms]]) simp
  then show ?thesis
    by (auto simp: filter_empty_conv cts_19_20_def)
qed

lemma no_section_4_21:
  assumes "1 \<le> s"
  shows "filter section_4_only (cts_21 n m s) = []"
proof -
  have "(1, the_var FX [i, j, 1, 2]) \<in> set (terms (add_expr
          (msum (map (\<lambda>k. of_var (the_var FX [i, j, k, 2])) (list_range s)))
          (msum (map (\<lambda>k. of_var (the_var FX [i, j + 1, k, 1])) (list_range s)))))" for i j
    using assms by (auto simp: terms_simps comp_def intro!: image_eqI [of _ _ 1])
  then have "\<not> section_4_only (Constraint nm (add_expr
          (msum (map (\<lambda>k. of_var (the_var FX [i, j, k, 2])) (list_range s)))
          (msum (map (\<lambda>k. of_var (the_var FX [i, j + 1, k, 1])) (list_range s)))) sn r)" for nm i j sn r
    by (rule not_section_4_by_term) simp
  then show ?thesis
    by (auto simp: filter_empty_conv cts_21_def)
qed

lemma no_section_4_22: "filter section_4_only (cts_22 n m s t) = []"
  by (auto simp: filter_empty_conv cts_22_def section_4_only_iff terms_simps)

lemma no_section_4_23: "filter section_4_only (cts_23 n m s t) = []"
  by (auto simp: filter_empty_conv cts_23_def section_4_only_iff terms_simps)

lemma no_section_4_24: "filter section_4_only (cts_24 n m s t) = []"
  by (auto simp: filter_empty_conv cts_24_def section_4_only_iff terms_simps)

lemma no_section_4_quality:
  "filter section_4_only (quality_cts k g target nm n m t competency) = []"
  by (auto simp: filter_empty_conv quality_cts_def section_4_only_iff terms_simps)

lemma no_section_4_all:
  assumes "valid_dims n m s t"
  shows "filter section_4_only (all_constraints n m s t competency) = []"
proof -
  from assms have "1 \<le> m" "1 \<le> s" "1 \<le> t"
    by (simp_all add: valid_dims_def)
  then show ?thesis
    unfolding all_constraints_def filter_append
    by (simp add: no_section_4_requirement no_section_4_13 no_section_4_14 no_section_4_15_16
        no_section_4_17_18 no_section_4_19_20 no_section_4_21 no_section_4_22 no_section_4_23
        no_section_4_24 no_section_4_quality)
qed


lemma requirement_cts_mem:
  assumes "1 \<le> j" "j \<le> m" "1 \<le> l" "l \<le> t"
  shows "Constraint (nm @ ''_Day_'' @ str j @ ''_Shift_'' @ str l)
           (LinExpr (map (\<lambda>i. (1, the_var FX [i, j, k, l])) (list_range n)) 0) EQ (of_num req)
         \<in> set (requirement_cts k req nm n m t)"
proof -
  have "msum (map (\<lambda>i. of_var (the_var FX [i, j, k, l])) (list_range n)) =
        LinExpr (map (\<lambda>i. (1, the_var FX [i, j, k, l])) (list_range n)) 0"
    by (simp add: expr_defs comp_def)
  then show ?thesis
    using assms unfolding requirement_cts_def
    by (auto intro!: bexI [of _ j] image_eqI [of _ _ l])
qed

text \<open>
  Claim C1, at the notebook's own parameters \<open>n = 80\<close>, \<open>m = 30\<close>, \<open>s = 7\<close>, \<open>t = 2\<close>. The
  constraint the notebook names as the requirement of section 4 on day 1, shift 1 sums the
  variables of section 3, \<open>X(i, 1, 3, 1)\<close>, and no constraint of the built model has a
  left-hand side made of section-4 assignment variables alone.
\<close>

theorem section_4_requirement_sums_section_3:
  "\<exists>M. build 80 30 7 2 unit_competency = Inr M \<and>
     Constraint ''Equation_9_Personnel_Requirement_Section_4_Day_1_Shift_1''
       (LinExpr (map (\<lambda>i. (1, the_var FX [i, 1, 3, 1])) (list_range 80)) 0) EQ (of_num 4)
       \<in> set (constraints M) \<and>
     filter section_4_only (constraints M) = []"
proof -
  have v: "valid_dims 80 30 7 2"
    by (simp add: valid_dims_def)
  from build_constraints [OF v total_unit_competency] obtain M where
    M: "build 80 30 7 2 unit_competency = Inr M"
      "constraints M = all_constraints 80 30 7 2 unit_competency"
    by blast
  have "Constraint (''Equation_9_Personnel_Requirement_Section_4'' @ ''_Day_'' @ str 1 @ ''_Shift_'' @ str 1)
         (LinExpr (map (\<lambda>i. (1, the_var FX [i, 1, 3, 1])) (list_range 80)) 0) EQ (of_num 4)
        \<in> set (requirement_cts 3 4 ''Equation_9_Personnel_Requirement_Section_4'' 80 30 2)"
    by (rule requirement_cts_mem) simp_all
  then have "Constraint ''Equation_9_Personnel_Requirement_Section_4_Day_1_Shift_1''
         (LinExpr (map (\<lambda>i. (1, the_var FX [i, 1, 3, 1])) (list_range 80)) 0) EQ (of_num 4)
        \<in> set (constraints M)"
    unfolding M(2) all_constraints_def by (simp add: str_digit digit_char_def)
  with M(1) no_section_4_all [OF v, of unit_competency] show ?thesis
    by (auto simp: M(2))
qed

text \<open>
  Claim C2, at the notebook's own parameters. The dict \<open>d_neg_6\<close> holds a variable at the
  key \<open>(1, 0)\<close>, shift 0, named \<^verbatim>\<open>d_neg_6_1_0\<close>, and the variable is registered with the
  model; the sibling dict \<open>d_pos_6\<close> has no such key.
\<close>

theorem d_neg_6_created_at_shift_0:
  "getitem (d_neg_6 30 2) (1, 0) = Inr (Var (FD Neg 6) [1, 0] ''d_neg_6_1_0'' Continuous) \<and>
   Var (FD Neg 6) [1, 0] ''d_neg_6_1_0'' Continuous \<in> set (variables (create_variables 80 30 7 2 Model)) \<and>
   getitem (d_pos_6 30 2) (1, 0) = Inl KeyError"
proof -
  have g: "getitem (d_neg_6 30 2) (1, 0) = Inr (Var (FD Neg 6) [1, 0] ''d_neg_6_1_0'' Continuous)"
    by (simp add: d_neg_6_def getitem_matrix str_digit digit_char_def)
  then have "map_of (d_neg_6 30 2) (1, 0) = Some (Var (FD Neg 6) [1, 0] ''d_neg_6_1_0'' Continuous)"
    by (simp add: getitem_def split: option.splits)
  then have "Var (FD Neg 6) [1, 0] ''d_neg_6_1_0'' Continuous \<in> snd ` set (d_neg_6 30 2)"
    by (metis map_of_SomeD image_eqI snd_conv)
  then have "Var (FD Neg 6) [1, 0] ''d_neg_6_1_0'' Continuous \<in> set (variables (create_variables 80 30 7 2 Model))"
    by (simp add: variables_create deviation_variables_def)
  moreover have "getitem (d_pos_6 30 2) (1, 0) = Inl KeyError"
    by (simp add: d_pos_6_def getitem_matrix)
  ultimately show ?thesis
    using g by simp
qed

end
